theory Spec2Isabelle
  imports Complex_Main "HOL-Library.AList"
begin

section \<open>ServiceTitanClient: a shallow embedding\<close>

text \<open>
  The repository holds two copies of the client class: \<^verbatim>\<open>src/client.py\<close> and
  \<^verbatim>\<open>src/servicetitan_api_client/client.py\<close>.  The methods \<^verbatim>\<open>__init__\<close>,
  \<^verbatim>\<open>_refresh_access_token\<close>, \<^verbatim>\<open>_get_access_token\<close>, \<^verbatim>\<open>_prepare_url\<close> and the part of
  \<^verbatim>\<open>_request\<close> up to and including the status check are the same text in both copies (the
  package copy stores two more constructor arguments, \<^verbatim>\<open>app_guid\<close> and \<^verbatim>\<open>local_timezone\<close>,
  which no method modelled here reads).  The copies differ in how \<^verbatim>\<open>_request\<close> turns a
  response with status below 400 into a value, and only the package copy has \<^verbatim>\<open>get_all\<close>
  and \<^verbatim>\<open>get_all_id_filter\<close>.

  Conventions of the embedding.
  \<^item> A Python \<^verbatim>\<open>str\<close> is a \<^typ>\<open>string\<close>; a character is read as a code point below 256.
  \<^item> A Python \<^verbatim>\<open>float\<close> (the clock, the expiry instant, a timeout) is a \<^typ>\<open>real\<close>: rounding is
    not modelled, the overflow of \<^verbatim>\<open>float(n)\<close> on a huge integer is.
  \<^item> Everything outside the class (the clock, the authorization server, the API server,
    \<^verbatim>\<open>str()\<close> of a decoded value) is a field of an environment record; the calls made to it
    are recorded in the state, so that "how many exchanges" is a length.
  \<^item> A parameter dictionary is passed by address into a heap of dictionaries, since
    \<^verbatim>\<open>get_all\<close> and \<^verbatim>\<open>get_all_id_filter\<close> write to the object the caller passed.
  \<^item> An exception is a value \<open>Inl e\<close>; every function returns the state it leaves behind.
\<close>

subsection \<open>Python values\<close>

text \<open>A decoded JSON document, as \<^verbatim>\<open>response.json()\<close> returns it.  \<open>JNull\<close> is \<^verbatim>\<open>None\<close>;
  the association list of \<open>JObj\<close> is the \<^verbatim>\<open>dict\<close> in insertion order.\<close>

datatype json =
    JNull
  | JBool bool
  | JInt int
  | JFloat real
  | JStr string
  | JArr "json list"
  | JObj "(string \<times> json) list"

text \<open>Python's truth value of an object (\<^verbatim>\<open>if x\<close>, \<^verbatim>\<open>not x\<close>, \<^verbatim>\<open>x or y\<close>).\<close>

fun truthy :: "json \<Rightarrow> bool" where
  "truthy JNull = False"
| "truthy (JBool b) = b"
| "truthy (JInt i) = (i \<noteq> 0)"
| "truthy (JFloat r) = (r \<noteq> 0)"
| "truthy (JStr s) = (s \<noteq> [])"
| "truthy (JArr xs) = (xs \<noteq> [])"
| "truthy (JObj kvs) = (kvs \<noteq> [])"

text \<open>\<^verbatim>\<open>d.get(k)\<close>: the value under the key, \<^verbatim>\<open>None\<close> when the key is absent.\<close>

definition dict_get :: "(string \<times> json) list \<Rightarrow> string \<Rightarrow> json" where
  "dict_get d k = (case map_of d k of None \<Rightarrow> JNull | Some v \<Rightarrow> v)"

text \<open>\<^verbatim>\<open>x or []\<close>.\<close>

definition or_empty :: "json \<Rightarrow> json" where
  "or_empty x = (if truthy x then x else JArr [])"

text \<open>\<^verbatim>\<open>isinstance(x, (int, float))\<close>.  In Python \<^verbatim>\<open>bool\<close> is a subclass of \<^verbatim>\<open>int\<close>, so
  \<^verbatim>\<open>True\<close> and \<^verbatim>\<open>False\<close> pass this test.\<close>

fun isinstance_int_float :: "json \<Rightarrow> bool" where
  "isinstance_int_float (JBool b) = True"
| "isinstance_int_float (JInt i) = True"
| "isinstance_int_float (JFloat r) = True"
| "isinstance_int_float x = False"

text \<open>\<^verbatim>\<open>float(x)\<close> on a value that passed the test above.  An integer whose magnitude
  reaches \<open>2^1024 - 2^970\<close> (half-way between the largest double and \<open>2^1024\<close>) raises
  \<^verbatim>\<open>OverflowError\<close>: that is \<open>None\<close> here.  The last equation is never reached by the
  client (it calls \<^verbatim>\<open>float\<close> only after the test, or on the literal 900).\<close>

fun py_float :: "json \<Rightarrow> real option" where
  "py_float (JBool b) = Some (if b then 1 else 0)"
| "py_float (JInt i) = (if \<bar>i\<bar> < 2 ^ 1024 - 2 ^ 970 then Some (real_of_int i) else None)"
| "py_float (JFloat r) = Some r"
| "py_float x = None"

text \<open>Iterating a value, as \<^verbatim>\<open>list.extend(x)\<close> does: a list gives its elements, a string
  its characters, a dict its keys; \<^verbatim>\<open>None\<close>, a boolean and a number raise \<^verbatim>\<open>TypeError\<close>.\<close>

fun py_iter :: "json \<Rightarrow> json list option" where
  "py_iter (JArr xs) = Some xs"
| "py_iter (JStr s) = Some (map (\<lambda>c. JStr [c]) s)"
| "py_iter (JObj kvs) = Some (map (\<lambda>kv. JStr (fst kv)) kvs)"
| "py_iter x = None"

subsection \<open>Strings\<close>

text \<open>\<^verbatim>\<open>str.lower\<close> and \<^verbatim>\<open>str.upper\<close> on code points below 256.  Lower-casing maps
  \<open>A..Z\<close> and the accented capitals 192..222 (without the sign 215) 32 places up.
  Upper-casing is the inverse on \<open>a..z\<close> and 224..254 (without 247); the three letters
  whose upper case lies outside this range (181, 223, 255) are left as they are, which
  deviates from Python and matters to no verb the client passes.\<close>

definition lower_char :: "char \<Rightarrow> char" where
  "lower_char c =
     (let n = (of_char c :: nat)
      in if (65 \<le> n \<and> n \<le> 90) \<or> (192 \<le> n \<and> n \<le> 222 \<and> n \<noteq> 215)
         then char_of (n + 32) else c)"

definition upper_char :: "char \<Rightarrow> char" where
  "upper_char c =
     (let n = (of_char c :: nat)
      in if (97 \<le> n \<and> n \<le> 122) \<or> (224 \<le> n \<and> n \<le> 254 \<and> n \<noteq> 247)
         then char_of (n - 32) else c)"

definition lower :: "string \<Rightarrow> string" where
  "lower s = map lower_char s"

definition upper :: "string \<Rightarrow> string" where
  "upper s = map upper_char s"

text \<open>\<^verbatim>\<open>s.startswith(p)\<close>.\<close>

definition startswith :: "string \<Rightarrow> string \<Rightarrow> bool" where
  "startswith s p = (take (length p) s = p)"

text \<open>\<^verbatim>\<open>s.lstrip("/")\<close> and \<^verbatim>\<open>s.rstrip("/")\<close>.\<close>

definition lstrip_slash :: "string \<Rightarrow> string" where
  "lstrip_slash s = dropWhile (\<lambda>c. c = CHR ''/'') s"

definition rstrip_slash :: "string \<Rightarrow> string" where
  "rstrip_slash s = rev (dropWhile (\<lambda>c. c = CHR ''/'') (rev s))"

text \<open>\<^verbatim>\<open>s.replace(old, new, 1)\<close> for a non-empty \<open>old\<close>: the leftmost occurrence of \<open>old\<close> is
  replaced, and \<open>s\<close> is returned as it is when there is none.\<close>

fun replace_first :: "string \<Rightarrow> string \<Rightarrow> string \<Rightarrow> string" where
  "replace_first old new [] = (if old = [] then new else [])"
| "replace_first old new (c # cs) =
     (if take (length old) (c # cs) = old then new @ drop (length old) (c # cs)
      else c # replace_first old new cs)"

text \<open>\<^verbatim>\<open>",".join(xs)\<close>.\<close>

fun join_comma :: "string list \<Rightarrow> string" where
  "join_comma [] = []"
| "join_comma [x] = x"
| "join_comma (x # y # ys) = x @ '','' @ join_comma (y # ys)"

subsection \<open>Errors\<close>

text \<open>The body quoted in an error message: \<^verbatim>\<open>str(response.json())\<close> when the body decodes,
  \<^verbatim>\<open>response.text\<close> otherwise.\<close>

datatype err_body = ErrJson json | ErrText string

text \<open>The three messages with which \<^verbatim>\<open>ServiceTitanAuthError\<close> is raised, and the two of
  \<^verbatim>\<open>ServiceTitanAPIError\<close>; each constructor carries the values its f-string interpolates.\<close>

datatype auth_failure =
    AuthConnectFailed string
  | AuthStatusFailed int err_body
  | AuthNoAccessToken

datatype api_failure =
    APIConnectFailed string string
  | APIStatusError int string err_body

text \<open>The four messages with which \<^verbatim>\<open>__init__\<close> raises \<^verbatim>\<open>ValueError\<close>; the last one
  quotes the lower-cased environment name.\<close>

datatype value_error =
    ClientIdMissing
  | ClientSecretMissing
  | AppKeyMissing
  | EnvironmentUnknown string

datatype error =
    ServiceTitanAuthError auth_failure
  | ServiceTitanAPIError api_failure
  | ValueError value_error
  | JSONDecodeError
  | AttributeError
  | OverflowError
  | TypeError
  | AssertionError

fun is_auth_error :: "error \<Rightarrow> bool" where
  "is_auth_error (ServiceTitanAuthError f) = True"
| "is_auth_error e = False"

subsection \<open>The transport: requests and responses\<close>

text \<open>What \<^verbatim>\<open>requests.post\<close> is called with by the token refresher.\<close>

record post_call =
  pc_url :: string
  pc_data :: "(string \<times> string) list"
  pc_headers :: "(string \<times> string) list"

text \<open>What \<^verbatim>\<open>requests.request\<close> is called with by the dispatcher; \<open>rq_params\<close> is the
  content of the parameter dictionary at the moment of the call.\<close>

record request =
  rq_method :: string
  rq_url :: string
  rq_params :: "(string \<times> json) list option"
  rq_json :: "json option"
  rq_headers :: "(string \<times> string) list"
  rq_timeout :: "real option"

text \<open>A \<^verbatim>\<open>requests.Response\<close>, reduced to what the client reads: \<open>content_type\<close> is
  \<^verbatim>\<open>response.headers.get("Content-Type")\<close> (\<open>None\<close> when the header is absent), \<open>resp_json\<close>
  is \<^verbatim>\<open>response.json()\<close> (\<open>None\<close> when it raises, which it does with a subclass of
  \<^verbatim>\<open>ValueError\<close>).\<close>

record response =
  status_code :: int
  content_type :: "string option"
  resp_text :: string
  resp_content :: string
  resp_json :: "json option"

text \<open>\<^verbatim>\<open>response.ok\<close> of the requests library: false exactly for a status from 400 to 599.\<close>

definition ok :: "response \<Rightarrow> bool" where
  "ok r = (\<not> (400 \<le> status_code r \<and> status_code r < 600))"

text \<open>A call to the transport either raises (carrying \<^verbatim>\<open>str(exc)\<close>) or returns a response.\<close>

datatype outcome = Raised string | Responded response

text \<open>The surroundings of the client.  The \<open>n\<close>-th call (counting from 0) of
  \<^verbatim>\<open>time.time()\<close> returns \<open>clock n\<close>; the \<open>n\<close>-th call of \<^verbatim>\<open>requests.post\<close> has outcome
  \<open>auth_reply n call\<close>; the \<open>n\<close>-th call of \<^verbatim>\<open>requests.request\<close> has outcome
  \<open>api_reply n req\<close>; \<open>py_str v\<close> is \<^verbatim>\<open>str(v)\<close> for a value \<open>v\<close> that is not a string.\<close>

record env =
  clock :: "nat \<Rightarrow> real"
  auth_reply :: "nat \<Rightarrow> post_call \<Rightarrow> outcome"
  api_reply :: "nat \<Rightarrow> request \<Rightarrow> outcome"
  py_str :: "json \<Rightarrow> string"

subsection \<open>The client\<close>

text \<open>The attributes set once by \<^verbatim>\<open>__init__\<close>.\<close>

record client =
  client_id :: string
  client_secret :: string
  app_key :: string
  tenant :: "string option"
  environment :: string
  auth_url :: string
  base_url :: string

text \<open>Everything that changes: the token cache of the client (\<^verbatim>\<open>_access_token\<close>, \<open>JNull\<close>
  for \<^verbatim>\<open>None\<close>, and \<^verbatim>\<open>_token_expiry\<close>), the dictionaries on the heap (by address) and the first
  address never used, the number of clock readings so far, and the calls made to the
  transport, oldest first.\<close>

record st =
  access_token :: json
  token_expiry :: real
  heap :: "nat \<Rightarrow> (string \<times> json) list option"
  next_addr :: nat
  ticks :: nat
  posts :: "post_call list"
  sent :: "request list"

definition DEFAULT_AUTH_URLS :: "string \<Rightarrow> string" where
  "DEFAULT_AUTH_URLS e =
     (if e = ''integration'' then ''https://auth-integration.servicetitan.io/connect/token''
      else ''https://auth.servicetitan.io/connect/token'')"

definition DEFAULT_BASE_URLS :: "string \<Rightarrow> string" where
  "DEFAULT_BASE_URLS e =
     (if e = ''integration'' then ''https://api-integration.servicetitan.io''
      else ''https://api.servicetitan.io'')"

text \<open>\<^verbatim>\<open>x or d\<close> for an optional string.\<close>

definition str_or :: "string option \<Rightarrow> string \<Rightarrow> string" where
  "str_or x d = (case x of None \<Rightarrow> d | Some s \<Rightarrow> if s = [] then d else s)"

text \<open>\<^verbatim>\<open>__init__\<close>: the constructed client and its empty token cache, or \<^verbatim>\<open>ValueError\<close>.
  The two tables are only indexed after the membership test.\<close>

definition init ::
  "string \<Rightarrow> string \<Rightarrow> string \<Rightarrow> string option \<Rightarrow> string \<Rightarrow> string option \<Rightarrow> string option
   \<Rightarrow> error + client \<times> json \<times> real" where
  "init cid secret key tnt envname aurl burl =
     (if cid = [] then Inl (ValueError ClientIdMissing)
      else if secret = [] then Inl (ValueError ClientSecretMissing)
      else if key = [] then Inl (ValueError AppKeyMissing)
      else let e = lower envname
           in if e \<noteq> ''integration'' \<and> e \<noteq> ''production''
              then Inl (ValueError (EnvironmentUnknown e))
              else Inr (\<lparr>client_id = cid, client_secret = secret, app_key = key, tenant = tnt,
                         environment = e,
                         auth_url = str_or aurl (DEFAULT_AUTH_URLS e),
                         base_url = str_or burl (DEFAULT_BASE_URLS e)\<rparr>,
                        JNull, 0))"

text \<open>\<^verbatim>\<open>time.time()\<close>.\<close>

definition time_time :: "env \<Rightarrow> st \<Rightarrow> real \<times> st" where
  "time_time e s = (clock e (ticks s), s\<lparr>ticks := Suc (ticks s)\<rparr>)"

subsection \<open>Authentication\<close>

definition err_text :: "response \<Rightarrow> err_body" where
  "err_text r = (case resp_json r of Some j \<Rightarrow> ErrJson j | None \<Rightarrow> ErrText (resp_text r))"

definition token_post :: "client \<Rightarrow> post_call" where
  "token_post c =
     \<lparr>pc_url = auth_url c,
      pc_data = [(''grant_type'', ''client_credentials''),
                 (''client_id'', client_id c),
                 (''client_secret'', client_secret c)],
      pc_headers = [(''Content-Type'', ''application/x-www-form-urlencoded'')]\<rparr>"

text \<open>\<^verbatim>\<open>_refresh_access_token\<close>.  The token is assigned before the expiry is computed,
  and \<^verbatim>\<open>time.time()\<close> is evaluated before \<^verbatim>\<open>float(expires_in)\<close>.\<close>

definition refresh_access_token :: "client \<Rightarrow> env \<Rightarrow> st \<Rightarrow> (error + unit) \<times> st" where
  "refresh_access_token c e s =
     (let s1 = s\<lparr>posts := posts s @ [token_post c]\<rparr>
      in case auth_reply e (length (posts s)) (token_post c) of
           Raised exc \<Rightarrow> (Inl (ServiceTitanAuthError (AuthConnectFailed exc)), s1)
         | Responded r \<Rightarrow>
             if \<not> ok r
             then (Inl (ServiceTitanAuthError (AuthStatusFailed (status_code r) (err_text r))), s1)
             else (case resp_json r of
                     None \<Rightarrow> (Inl JSONDecodeError, s1)
                   | Some (JObj token_info) \<Rightarrow>
                       let tok = dict_get token_info ''access_token''
                       in if \<not> truthy tok
                          then (Inl (ServiceTitanAuthError AuthNoAccessToken), s1)
                          else let expires_in0 = dict_get token_info ''expires_in'';
                                   expires_in = (if \<not> isinstance_int_float expires_in0
                                                 then JInt 900 else expires_in0);
                                   s2 = s1\<lparr>access_token := tok\<rparr>;
                                   (now, s3) = time_time e s2
                               in (case py_float expires_in of
                                     None \<Rightarrow> (Inl OverflowError, s3)
                                   | Some d \<Rightarrow> (Inr (), s3\<lparr>token_expiry := now + d\<rparr>))
                   | Some other \<Rightarrow> (Inl AttributeError, s1)))"

text \<open>\<^verbatim>\<open>_get_access_token\<close>.\<close>

definition get_access_token :: "client \<Rightarrow> env \<Rightarrow> st \<Rightarrow> (error + json) \<times> st" where
  "get_access_token c e s =
     (let (now, s1) = time_time e s
      in if \<not> truthy (access_token s1) \<or> now \<ge> token_expiry s1 - 60
         then (case refresh_access_token c e s1 of
                 (Inl err, s2) \<Rightarrow> (Inl err, s2)
               | (Inr u, s2) \<Rightarrow>
                   if access_token s2 = JNull then (Inl AssertionError, s2)
                   else (Inr (access_token s2), s2))
         else if access_token s1 = JNull then (Inl AssertionError, s1)
         else (Inr (access_token s1), s1))"

subsection \<open>HTTP request helpers\<close>

text \<open>\<^verbatim>\<open>_prepare_url\<close>.  \<^verbatim>\<open>self.tenant\<close> is tested for truth: \<^verbatim>\<open>None\<close> and the empty string
  both count as no tenant.\<close>

definition prepare_url :: "client \<Rightarrow> string \<Rightarrow> string" where
  "prepare_url c path =
     (if startswith path ''http://'' \<or> startswith path ''https://'' then path
      else let clean_path = lstrip_slash path;
               clean_path2 =
                 (case tenant c of
                    None \<Rightarrow> clean_path
                  | Some t \<Rightarrow>
                      if t \<noteq> [] \<and> startswith clean_path ''tenant/''
                      then replace_first ''tenant/'' (''tenant/'' @ t @ ''/'') clean_path
                      else clean_path)
           in rstrip_slash (base_url c) @ ''/'' @ clean_path2)"

text \<open>The dictionary behind an address; the content of a dictionary never allocated is
  of no consequence and taken as empty.\<close>

definition deref :: "st \<Rightarrow> nat \<Rightarrow> (string \<times> json) list" where
  "deref s a = (case heap s a of None \<Rightarrow> [] | Some d \<Rightarrow> d)"

text \<open>\<^verbatim>\<open>d[k] = v\<close> on the dictionary at address \<open>a\<close>.\<close>

definition set_item :: "nat \<Rightarrow> string \<Rightarrow> json \<Rightarrow> st \<Rightarrow> st" where
  "set_item a k v s = s\<lparr>heap := (heap s)(a \<mapsto> AList.update k v (deref s a))\<rparr>"

text \<open>\<^verbatim>\<open>f"{token}"\<close>: a string is inserted as it is, any other value through \<^verbatim>\<open>str\<close>.\<close>

definition fstr :: "env \<Rightarrow> json \<Rightarrow> string" where
  "fstr e v = (case v of JStr x \<Rightarrow> x | _ \<Rightarrow> py_str e v)"

text \<open>The header dictionary of \<^verbatim>\<open>_request\<close> (lines 274 to 284 of \<^verbatim>\<open>src/client.py\<close>, lines
  287 to 297 of the package copy): the two fixed entries, then the loop over the caller's
  headers (skipped altogether when the argument is \<^verbatim>\<open>None\<close> or empty).  \<open>critical\<close> is the
  test of the loop, \<open>add_header\<close> its body.\<close>

definition critical :: "string \<Rightarrow> bool" where
  "critical key = (lower key = ''authorization'' \<or> lower key = ''st-app-key'')"

definition add_header :: "string \<times> string \<Rightarrow> (string \<times> string) list \<Rightarrow> (string \<times> string) list" where
  "add_header kv req_headers =
     (if critical (fst kv) then req_headers else AList.update (fst kv) (snd kv) req_headers)"

definition request_headers ::
  "client \<Rightarrow> env \<Rightarrow> json \<Rightarrow> (string \<times> string) list option \<Rightarrow> (string \<times> string) list" where
  "request_headers c e token headers =
     (let req_headers = [(''Authorization'', ''Bearer '' @ fstr e token),
                         (''ST-App-Key'', app_key c)]
      in case headers of
           None \<Rightarrow> req_headers
         | Some hs \<Rightarrow> if hs = [] then req_headers else fold add_header hs req_headers)"

text \<open>What \<^verbatim>\<open>_request\<close> returns: a decoded document, a text, or the raw bytes.\<close>

datatype payload = Json json | Text string | Bytes string

text \<open>The keyword arguments of the call \<^verbatim>\<open>requests.request(...)\<close> in \<^verbatim>\<open>_request\<close>, given the
  token obtained.  The parameters are passed by address and read by the transport, so
  the call records what the dictionary holds at that moment.\<close>

definition make_request ::
  "client \<Rightarrow> env \<Rightarrow> string \<Rightarrow> string \<Rightarrow> nat option \<Rightarrow> json option
   \<Rightarrow> (string \<times> string) list option \<Rightarrow> real option \<Rightarrow> json \<Rightarrow> st \<Rightarrow> request" where
  "make_request c e method path params body headers timeout token s =
     \<lparr>rq_method = upper method, rq_url = prepare_url c path,
      rq_params = map_option (deref s) params, rq_json = body,
      rq_headers = request_headers c e token headers,
      rq_timeout = timeout\<rparr>"

text \<open>The part of \<^verbatim>\<open>_request\<close> that both copies share (lines 271 to 307 of
  \<^verbatim>\<open>src/client.py\<close>, lines 284 to 320 of the package copy): resolve the URL, obtain a token,
  build the headers, call the transport, raise on a transport failure and on a status of
  400 or more.\<close>

definition dispatch ::
  "client \<Rightarrow> env \<Rightarrow> string \<Rightarrow> string \<Rightarrow> nat option \<Rightarrow> json option
   \<Rightarrow> (string \<times> string) list option \<Rightarrow> real option \<Rightarrow> st \<Rightarrow> (error + response) \<times> st" where
  "dispatch c e method path params body headers timeout s =
     (let url = prepare_url c path
      in case get_access_token c e s of
           (Inl err, s1) \<Rightarrow> (Inl err, s1)
         | (Inr token, s1) \<Rightarrow>
             let req = make_request c e method path params body headers timeout token s1;
                 s2 = s1\<lparr>sent := sent s1 @ [req]\<rparr>
             in (case api_reply e (length (sent s1)) req of
                   Raised exc \<Rightarrow> (Inl (ServiceTitanAPIError (APIConnectFailed url exc)), s2)
                 | Responded r \<Rightarrow>
                     if status_code r \<ge> 400
                     then (Inl (ServiceTitanAPIError
                                  (APIStatusError (status_code r) url (err_text r))), s2)
                     else (Inr r, s2)))"

text \<open>The end of \<^verbatim>\<open>_request\<close> in the package copy (lines 322 to 337): the representation is
  chosen by \<open>declared_type\<close>, the lower-cased \<^verbatim>\<open>Content-Type\<close> (the empty string when the
  header is absent).\<close>

definition declared_type :: "response \<Rightarrow> string" where
  "declared_type r = lower (case content_type r of None \<Rightarrow> [] | Some t \<Rightarrow> t)"

definition represent :: "response \<Rightarrow> payload" where
  "represent r =
     (if startswith (declared_type r) ''application/json''
      then (case resp_json r of Some j \<Rightarrow> Json j | None \<Rightarrow> Text (resp_text r))
      else if startswith (declared_type r) ''image/''
              \<or> startswith (declared_type r) ''application/octet-stream''
      then Bytes (resp_content r)
      else Text (resp_text r))"

text \<open>The end of \<^verbatim>\<open>_request\<close> in \<^verbatim>\<open>src/client.py\<close> (lines 309 to 313): decode whatever the
  content type, and fall back to the text.\<close>

definition represent_root :: "response \<Rightarrow> payload" where
  "represent_root r = (case resp_json r of Some j \<Rightarrow> Json j | None \<Rightarrow> Text (resp_text r))"

text \<open>\<^verbatim>\<open>_request\<close> of the package copy, and of \<^verbatim>\<open>src/client.py\<close>.\<close>

definition request ::
  "client \<Rightarrow> env \<Rightarrow> string \<Rightarrow> string \<Rightarrow> nat option \<Rightarrow> json option
   \<Rightarrow> (string \<times> string) list option \<Rightarrow> real option \<Rightarrow> st \<Rightarrow> (error + payload) \<times> st" where
  "request c e method path params body headers timeout s =
     (case dispatch c e method path params body headers timeout s of
        (Inl err, s1) \<Rightarrow> (Inl err, s1)
      | (Inr r, s1) \<Rightarrow> (Inr (represent r), s1))"

definition request_root ::
  "client \<Rightarrow> env \<Rightarrow> string \<Rightarrow> string \<Rightarrow> nat option \<Rightarrow> json option
   \<Rightarrow> (string \<times> string) list option \<Rightarrow> real option \<Rightarrow> st \<Rightarrow> (error + payload) \<times> st" where
  "request_root c e method path params body headers timeout s =
     (case dispatch c e method path params body headers timeout s of
        (Inl err, s1) \<Rightarrow> (Inl err, s1)
      | (Inr r, s1) \<Rightarrow> (Inr (represent_root r), s1))"

subsection \<open>Public convenience methods (package copy)\<close>

text \<open>\<^verbatim>\<open>get\<close>.\<close>

definition get ::
  "client \<Rightarrow> env \<Rightarrow> string \<Rightarrow> nat option \<Rightarrow> (string \<times> string) list option \<Rightarrow> real option
   \<Rightarrow> st \<Rightarrow> (error + payload) \<times> st" where
  "get c e path params headers timeout s = request c e ''GET'' path params None headers timeout s"

text \<open>\<^verbatim>\<open>resp.get(k)\<close> on what \<^verbatim>\<open>get\<close> returned: only a decoded JSON object is a \<^verbatim>\<open>dict\<close>; a
  string, a byte string, a list, a number and \<^verbatim>\<open>None\<close> have no method \<^verbatim>\<open>get\<close>.\<close>

definition resp_get :: "payload \<Rightarrow> string \<Rightarrow> error + json" where
  "resp_get resp k = (case resp of Json (JObj d) \<Rightarrow> Inr (dict_get d k) | _ \<Rightarrow> Inl AttributeError)"

text \<open>A new dictionary object: it is put at the first address never used.\<close>

definition new_dict :: "(string \<times> json) list \<Rightarrow> st \<Rightarrow> nat \<times> st" where
  "new_dict d s = (next_addr s, s\<lparr>heap := (heap s)(next_addr s \<mapsto> d), next_addr := Suc (next_addr s)\<rparr>)"

text \<open>The \<^verbatim>\<open>while True\<close> loop of \<^verbatim>\<open>get_all\<close>.  It need not end (a server may declare
  \<^verbatim>\<open>hasMore\<close> for ever), so the result is optional: \<open>None\<close> is a run that never returns.
  \<^verbatim>\<open>output.extend(data)\<close> stands outside the \<^verbatim>\<open>try\<close>, its \<^verbatim>\<open>TypeError\<close> is not caught.\<close>

partial_function (option) get_all_loop ::
  "client \<Rightarrow> env \<Rightarrow> string \<Rightarrow> nat \<Rightarrow> (string \<times> string) list option \<Rightarrow> real option
   \<Rightarrow> json list \<Rightarrow> int \<Rightarrow> st \<Rightarrow> ((error + json list) \<times> st) option" where
  "get_all_loop c e path p headers timeout output page s =
     (case get c e path (Some p) headers timeout (set_item p ''page'' (JInt page) s) of
        (Inl err, s1) \<Rightarrow> Some (Inr output, s1)
      | (Inr resp, s1) \<Rightarrow>
          (case resp of
             Json (JObj d) \<Rightarrow>
               (case py_iter (or_empty (dict_get d ''data'')) of
                  None \<Rightarrow> Some (Inl TypeError, s1)
                | Some data \<Rightarrow>
                    if truthy (dict_get d ''hasMore'')
                    then get_all_loop c e path p headers timeout (output @ data) (page + 1) s1
                    else Some (Inr (output @ data), s1))
           | _ \<Rightarrow> Some (Inr output, s1)))"

declare get_all_loop.simps [code]

text \<open>\<^verbatim>\<open>get_all\<close>; \<open>page_params\<close> is its \<^verbatim>\<open>if params: ... else: ...\<close> (lines 368 to 371).  A caller's
  dictionary that is not empty is written to in place; for \<^verbatim>\<open>None\<close> and for an empty
  dictionary a new one is made.\<close>

definition page_params :: "nat option \<Rightarrow> st \<Rightarrow> nat \<times> st" where
  "page_params params s =
     (case params of
        None \<Rightarrow> new_dict [(''page'', JInt 1)] s
      | Some a \<Rightarrow>
          if deref s a \<noteq> [] then (a, set_item a ''page'' (JInt 1) s)
          else new_dict [(''page'', JInt 1)] s)"

definition get_all ::
  "client \<Rightarrow> env \<Rightarrow> string \<Rightarrow> nat option \<Rightarrow> (string \<times> string) list option \<Rightarrow> real option
   \<Rightarrow> st \<Rightarrow> ((error + json list) \<times> st) option" where
  "get_all c e path params headers timeout s =
     (let (p, s1) = page_params params s
      in get_all_loop c e path p headers timeout [] 1 s1)"

text \<open>The body of the two \<^verbatim>\<open>for i in range(...)\<close> loops of \<^verbatim>\<open>get_all_id_filter\<close> (lines 410
  to 414 and 418 to 422), which are the same text; the key written is the literal
  \<^verbatim>\<open>'ids'\<close>.  The list of indices is the \<^verbatim>\<open>range\<close>.\<close>

fun id_filter_loop ::
  "client \<Rightarrow> env \<Rightarrow> string \<Rightarrow> nat \<Rightarrow> (string \<times> string) list option \<Rightarrow> real option
   \<Rightarrow> string list \<Rightarrow> nat list \<Rightarrow> json list \<Rightarrow> st \<Rightarrow> (error + json list) \<times> st" where
  "id_filter_loop c e path p headers timeout ids [] data s = (Inr data, s)"
| "id_filter_loop c e path p headers timeout ids (i # rest) data s =
     (let tmp_ids = take 50 (drop (50 * i) ids)
      in case get c e path (Some p) headers timeout
                (set_item p ''ids'' (JStr (join_comma tmp_ids)) s) of
           (Inl err, s1) \<Rightarrow> (Inl err, s1)
         | (Inr resp, s1) \<Rightarrow>
             (case resp_get resp ''data'' of
                Inl err \<Rightarrow> (Inl err, s1)
              | Inr v \<Rightarrow>
                  (case py_iter v of
                     None \<Rightarrow> (Inl TypeError, s1)
                   | Some xs \<Rightarrow>
                       id_filter_loop c e path p headers timeout ids rest (data @ xs) s1)))"

text \<open>\<^verbatim>\<open>if not params: params = {}\<close> (lines 400 and 401).\<close>

definition filter_params :: "nat option \<Rightarrow> st \<Rightarrow> nat \<times> st" where
  "filter_params params s =
     (case params of
        None \<Rightarrow> new_dict [] s
      | Some a \<Rightarrow> if deref s a \<noteq> [] then (a, s) else new_dict [] s)"

text \<open>\<^verbatim>\<open>get_all_id_filter\<close>.  With fewer than 50 identifiers the value returned is
  \<^verbatim>\<open>resp.get("data") or []\<close>, whatever its type; otherwise it is the list built by the loop.\<close>

definition get_all_id_filter ::
  "client \<Rightarrow> env \<Rightarrow> string \<Rightarrow> string list \<Rightarrow> string \<Rightarrow> nat option
   \<Rightarrow> (string \<times> string) list option \<Rightarrow> real option \<Rightarrow> st \<Rightarrow> (error + json) \<times> st" where
  "get_all_id_filter c e path ids id_filter_name params headers timeout s =
     (let (p, s0) = filter_params params s;
          id_len = length ids
      in if id_len < 50
         then (case get c e path (Some p) headers timeout
                      (set_item p id_filter_name (JStr (join_comma ids)) s0) of
                 (Inl err, s1) \<Rightarrow> (Inl err, s1)
               | (Inr resp, s1) \<Rightarrow>
                   (case resp_get resp ''data'' of
                      Inl err \<Rightarrow> (Inl err, s1)
                    | Inr v \<Rightarrow> (Inr (or_empty v), s1)))
         else (case id_filter_loop c e path p headers timeout ids
                      (if id_len mod 50 = 0 then [0 ..< id_len div 50]
                       else [0 ..< id_len div 50 + 1]) [] s0 of
                 (Inl err, s1) \<Rightarrow> (Inl err, s1)
               | (Inr data, s1) \<Rightarrow> (Inr (JArr data), s1)))"

subsection \<open>Runs of the pagination loop\<close>

text \<open>The dispatch that one round of the loop of \<^verbatim>\<open>get_all\<close> makes for a page number: the
  assignment \<^verbatim>\<open>params['page'] = page\<close>, then \<^verbatim>\<open>self.get\<close>.\<close>

definition page_get ::
  "client \<Rightarrow> env \<Rightarrow> string \<Rightarrow> nat \<Rightarrow> (string \<times> string) list option \<Rightarrow> real option
   \<Rightarrow> int \<Rightarrow> st \<Rightarrow> (error + payload) \<times> st" where
  "page_get c e path p headers timeout page s =
     get c e path (Some p) headers timeout (set_item p ''page'' (JInt page) s)"

text \<open>The state after the first \<open>k\<close> rounds, which dispatch the pages 1 to \<open>k\<close>, and the
  result of round \<open>k + 1\<close>.\<close>

primrec after_pages ::
  "client \<Rightarrow> env \<Rightarrow> string \<Rightarrow> nat \<Rightarrow> (string \<times> string) list option \<Rightarrow> real option
   \<Rightarrow> nat \<Rightarrow> st \<Rightarrow> st" where
  "after_pages c e path p headers timeout 0 s = s"
| "after_pages c e path p headers timeout (Suc k) s =
     snd (page_get c e path p headers timeout (int (Suc k))
            (after_pages c e path p headers timeout k s))"

definition page_result ::
  "client \<Rightarrow> env \<Rightarrow> string \<Rightarrow> nat \<Rightarrow> (string \<times> string) list option \<Rightarrow> real option
   \<Rightarrow> nat \<Rightarrow> st \<Rightarrow> error + payload" where
  "page_result c e path p headers timeout k s =
     fst (page_get c e path p headers timeout (int (Suc k))
            (after_pages c e path p headers timeout k s))"

text \<open>What a round adds to the output (\<open>None\<close>: \<^verbatim>\<open>extend\<close> raises \<^verbatim>\<open>TypeError\<close>), and whether
  the loop goes on after it.  Only a decoded JSON object is a \<^verbatim>\<open>dict\<close>.\<close>

fun page_data :: "error + payload \<Rightarrow> json list option" where
  "page_data (Inr (Json (JObj d))) = py_iter (or_empty (dict_get d ''data''))"
| "page_data r = Some []"

fun has_more :: "error + payload \<Rightarrow> bool" where
  "has_more (Inr (Json (JObj d))) = truthy (dict_get d ''hasMore'')"
| "has_more r = False"

text \<open>A \<^verbatim>\<open>GET\<close> of the resolved path whose parameters hold the given page number.\<close>

definition is_page_request :: "client \<Rightarrow> string \<Rightarrow> int \<Rightarrow> request \<Rightarrow> bool" where
  "is_page_request c path page req =
     (rq_method req = ''GET'' \<and> rq_url req = prepare_url c path
      \<and> (case rq_params req of None \<Rightarrow> False | Some d \<Rightarrow> map_of d ''page'' = Some (JInt page)))"

text \<open>The last of the chunks of 50 into which \<^verbatim>\<open>get_all_id_filter\<close> cuts the identifiers (the
  whole list when it has fewer than 50).\<close>

definition last_chunk :: "string list \<Rightarrow> string list" where
  "last_chunk ids = drop (50 * ((length ids + 49) div 50 - 1)) ids"

subsection \<open>Example values\<close>

text \<open>A client, two states of its token cache, and surroundings whose clock stands at
  1000 seconds; the authorization server and the API server are given by the example.\<close>

definition ex_client :: client where
  "ex_client =
     \<lparr>client_id = ''id'', client_secret = ''secret'', app_key = ''key'',
      tenant = Some ''123456'', environment = ''integration'',
      auth_url = ''https://auth.example/token'', base_url = ''https://api.example/''\<rparr>"

definition ex_fresh :: st where
  "ex_fresh =
     \<lparr>access_token = JNull, token_expiry = 0, heap = Map.empty, next_addr = 0,
      ticks = 0, posts = [], sent = []\<rparr>"

definition ex_cached :: st where
  "ex_cached = ex_fresh\<lparr>access_token := JStr ''tok'', token_expiry := 1900\<rparr>"

definition ex_env ::
  "(nat \<Rightarrow> post_call \<Rightarrow> outcome) \<Rightarrow> (nat \<Rightarrow> request \<Rightarrow> outcome) \<Rightarrow> env" where
  "ex_env auth api =
     \<lparr>clock = (\<lambda>n. 1000), auth_reply = auth, api_reply = api, py_str = (\<lambda>v. ''value'')\<rparr>"

definition ex_json_response :: "int \<Rightarrow> json \<Rightarrow> response" where
  "ex_json_response status j =
     \<lparr>status_code = status, content_type = Some ''application/json'',
      resp_text = [], resp_content = [], resp_json = Some j\<rparr>"

definition ex_text_response :: "int \<Rightarrow> string \<Rightarrow> string \<Rightarrow> response" where
  "ex_text_response status ctype body =
     \<lparr>status_code = status, content_type = Some ctype,
      resp_text = body, resp_content = body, resp_json = None\<rparr>"

text \<open>An authorization server that grants the token \<^verbatim>\<open>"tok"\<close> for 900 seconds, one that
  cannot be reached, one that answers 401, and one whose answer has no token.\<close>

definition ex_granted :: "nat \<Rightarrow> post_call \<Rightarrow> outcome" where
  "ex_granted n call =
     Responded (ex_json_response 200
       (JObj [(''access_token'', JStr ''tok''), (''expires_in'', JInt 900)]))"

definition ex_unreachable :: "nat \<Rightarrow> post_call \<Rightarrow> outcome" where
  "ex_unreachable n call = Raised ''connection refused''"

definition ex_denied :: "nat \<Rightarrow> post_call \<Rightarrow> outcome" where
  "ex_denied n call = Responded (ex_text_response 401 ''text/plain'' ''denied'')"

definition ex_tokenless :: "nat \<Rightarrow> post_call \<Rightarrow> outcome" where
  "ex_tokenless n call = Responded (ex_json_response 200 (JObj [(''expires_in'', JInt 900)]))"

text \<open>An authorization server whose answer is
  \<^verbatim>\<open>{"access_token": "tok", "expires_in": true}\<close>.\<close>

definition ex_granted_bool :: "nat \<Rightarrow> post_call \<Rightarrow> outcome" where
  "ex_granted_bool n call =
     Responded (ex_json_response 200
       (JObj [(''access_token'', JStr ''tok''), (''expires_in'', JBool True)]))"

text \<open>An API server that cannot be reached.\<close>

definition ex_down :: "nat \<Rightarrow> request \<Rightarrow> outcome" where
  "ex_down n req = Raised ''connection refused''"

text \<open>Caller's headers that try to replace the two fixed ones.\<close>

definition ex_headers :: "(string \<times> string) list" where
  "ex_headers = [(''authorization'', ''Bearer forged''), (''Accept'', ''text/csv''),
                 (''ST-APP-KEY'', ''other'')]"

text \<open>An API server that gives the same response to every request; a response declared
  as plain text whose body happens to be a JSON document; a PNG image; a response
  declared as JSON whose body is not a JSON document; a 404 with a JSON body.\<close>

definition ex_answers :: "response \<Rightarrow> nat \<Rightarrow> request \<Rightarrow> outcome" where
  "ex_answers r n req = Responded r"

definition ex_plain :: response where
  \<open>ex_plain =
     \<lparr>status_code = 200, content_type = Some ''text/plain'',
      resp_text = ''{"a":1}'', resp_content = ''{"a":1}'',
      resp_json = Some (JObj [(''a'', JInt 1)])\<rparr>\<close>

definition ex_image :: response where
  "ex_image = ex_text_response 200 ''image/png'' ''PNG''"

definition ex_broken_json :: response where
  "ex_broken_json = ex_text_response 200 ''Application/JSON; charset=utf-8'' ''oops''"

definition ex_not_found :: response where
  "ex_not_found = ex_json_response 404 (JObj [(''title'', JStr ''Not Found'')])"

text \<open>An API server with three pages: \<^verbatim>\<open>[1, 2]\<close> and \<^verbatim>\<open>[3]\<close> with \<^verbatim>\<open>hasMore\<close>, then \<^verbatim>\<open>[4]\<close> without.\<close>

definition ex_page :: "json list \<Rightarrow> bool \<Rightarrow> response" where
  "ex_page xs b =
     ex_json_response 200 (JObj [(''data'', JArr xs), (''hasMore'', JBool b)])"

definition ex_three_pages :: "nat \<Rightarrow> request \<Rightarrow> outcome" where
  "ex_three_pages n req =
     Responded (if n = 0 then ex_page [JInt 1, JInt 2] True
                else if n = 1 then ex_page [JInt 3] True
                else ex_page [JInt 4] False)"

text \<open>A list of \<open>n\<close> identifiers; for every request sent, the keys of its parameters, each
  with the length of its value when that is a string; a state in which the caller's
  dictionary, at address 0, holds the given items.\<close>

definition ex_ids :: "nat \<Rightarrow> string list" where
  "ex_ids n = replicate n ''7''"

definition ex_filter_keys :: "(error + json) \<times> st \<Rightarrow> (string \<times> nat) list list" where
  "ex_filter_keys r =
     map (\<lambda>req. case rq_params req of
                   None \<Rightarrow> []
                 | Some d \<Rightarrow> map (\<lambda>kv. (fst kv, case snd kv of JStr x \<Rightarrow> length x | _ \<Rightarrow> 0)) d)
         (sent (snd r))"

definition ex_with_params :: "(string \<times> json) list \<Rightarrow> st" where
  "ex_with_params d = ex_cached\<lparr>heap := [0 \<mapsto> d], next_addr := 1\<rparr>"

text \<open>An authorization server that answers 200 with the given JSON document, and one that
  answers 200 with a page of HTML.\<close>

definition ex_granted_with :: "json \<Rightarrow> nat \<Rightarrow> post_call \<Rightarrow> outcome" where
  "ex_granted_with body n call = Responded (ex_json_response 200 body)"

definition ex_html :: "nat \<Rightarrow> post_call \<Rightarrow> outcome" where
  "ex_html n call = Responded (ex_text_response 200 ''text/html'' ''<html></html>'')"

section \<open>The credential lifecycle\<close>

subsection \<open>The token refresher\<close>

lemma refresh_posts:
  "posts (snd (refresh_access_token c e s)) = posts s @ [token_post c]"
  by (simp add: refresh_access_token_def time_time_def Let_def
           split: outcome.splits option.splits json.splits prod.splits)

lemma refresh_token_set:
  "refresh_access_token c e s = (Inr u, s2) \<Longrightarrow> truthy (access_token s2)"
  by (auto simp: refresh_access_token_def time_time_def Let_def
           split: outcome.splits option.splits json.splits prod.splits if_splits)

lemma truthy_not_null: "truthy t \<Longrightarrow> t \<noteq> JNull"
  by auto

subsection \<open>The access guard\<close>

lemma guard_refresh:
  assumes "\<not> truthy (access_token s) \<or> token_expiry s - 60 \<le> clock e (ticks s)"
  shows "get_access_token c e s =
     (case refresh_access_token c e (s\<lparr>ticks := Suc (ticks s)\<rparr>) of
        (Inl err, s2) \<Rightarrow> (Inl err, s2)
      | (Inr u, s2) \<Rightarrow> (Inr (access_token s2), s2))"
proof (cases "refresh_access_token c e (s\<lparr>ticks := Suc (ticks s)\<rparr>)")
  case (Pair r s2)
  show ?thesis
  proof (cases r)
    case (Inl err)
    with Pair assms show ?thesis
      by (auto simp: get_access_token_def time_time_def)
  next
    case (Inr u)
    with Pair have "access_token s2 \<noteq> JNull"
      using refresh_token_set truthy_not_null by blast
    with Pair Inr assms show ?thesis
      by (auto simp: get_access_token_def time_time_def)
  qed
qed

lemma dispatch_posts:
  "posts (snd (dispatch c e m path ps body hs tmo s)) = posts (snd (get_access_token c e s))"
  by (simp add: dispatch_def Let_def split: prod.splits sum.splits outcome.splits)

lemma request_posts:
  "posts (snd (request c e m path ps body hs tmo s)) = posts (snd (get_access_token c e s))"
  using dispatch_posts [of c e m path ps body hs tmo s]
  by (auto simp: request_def split: prod.splits sum.splits)

text \<open>
  Claim C1.  \<^verbatim>\<open>_get_access_token\<close> reads the clock once.  When a token is stored (the
  attribute is true in Python's sense; \<^verbatim>\<open>_refresh_access_token\<close> never stores another kind,
  see \<open>refresh_token_set\<close>) and the reading is below the expiry minus 60 seconds, it returns
  the stored token, leaves the cache as it is and posts nothing, so a request made then
  adds no exchange.  When no token is stored or the reading has reached the expiry minus
  60 seconds, its result is that of one call of the refresher, and exactly one exchange
  is added to those made so far, also by a request.  Hence for a client as \<^verbatim>\<open>__init__\<close>
  leaves it the first request makes exactly one exchange, and a second request made
  while a token is cached and the clock is below its expiry minus 60 seconds makes no
  further one.
\<close>

theorem get_access_token_lazy:
  "(truthy (access_token s) \<and> clock e (ticks s) < token_expiry s - 60 \<longrightarrow>
      get_access_token c e s = (Inr (access_token s), s\<lparr>ticks := Suc (ticks s)\<rparr>)
      \<and> posts (snd (request c e m path ps body hs tmo s)) = posts s)
   \<and> (\<not> truthy (access_token s) \<or> token_expiry s - 60 \<le> clock e (ticks s) \<longrightarrow>
      get_access_token c e s =
        (case refresh_access_token c e (s\<lparr>ticks := Suc (ticks s)\<rparr>) of
           (Inl err, s2) \<Rightarrow> (Inl err, s2)
         | (Inr u, s2) \<Rightarrow> (Inr (access_token s2), s2))
      \<and> posts (snd (get_access_token c e s)) = posts s @ [token_post c]
      \<and> posts (snd (request c e m path ps body hs tmo s)) = posts s @ [token_post c])
   \<and> (init cid secret key tnt envname aurl burl = Inr (c, access_token s, token_expiry s) \<longrightarrow>
      posts (snd (request c e m path ps body hs tmo s)) = posts s @ [token_post c]
      \<and> (truthy (access_token (snd (request c e m path ps body hs tmo s)))
           \<and> clock e (ticks (snd (request c e m path ps body hs tmo s)))
               < token_expiry (snd (request c e m path ps body hs tmo s)) - 60 \<longrightarrow>
           posts (snd (request c e m2 path2 ps2 body2 hs2 tmo2
                         (snd (request c e m path ps body hs tmo s))))
             = posts s @ [token_post c]))"
proof -
  have cachedcase: "get_access_token c e s = (Inr (access_token s), s\<lparr>ticks := Suc (ticks s)\<rparr>)"
    if "truthy (access_token s) \<and> clock e (ticks s) < token_expiry s - 60" for s
    using that by (auto simp: get_access_token_def time_time_def)
  have stale: "posts (snd (get_access_token c e s)) = posts s @ [token_post c]"
    if "\<not> truthy (access_token s) \<or> token_expiry s - 60 \<le> clock e (ticks s)" for s
    using refresh_posts [of c e "s\<lparr>ticks := Suc (ticks s)\<rparr>"] guard_refresh [OF that, of c]
    by (auto split: prod.splits sum.splits)
  have fresh_null: "access_token s = JNull"
    if "init cid secret key tnt envname aurl burl = Inr (c, access_token s, token_expiry s)"
    using that by (auto simp: init_def Let_def split: if_splits)
  show ?thesis
  proof (intro conjI impI)
    assume "truthy (access_token s) \<and> clock e (ticks s) < token_expiry s - 60"
    from cachedcase [OF this]
    show "get_access_token c e s = (Inr (access_token s), s\<lparr>ticks := Suc (ticks s)\<rparr>)"
      and "posts (snd (request c e m path ps body hs tmo s)) = posts s"
      by (simp_all add: request_posts)
  next
    assume h: "\<not> truthy (access_token s) \<or> token_expiry s - 60 \<le> clock e (ticks s)"
    then show "get_access_token c e s =
        (case refresh_access_token c e (s\<lparr>ticks := Suc (ticks s)\<rparr>) of
           (Inl err, s2) \<Rightarrow> (Inl err, s2)
         | (Inr u, s2) \<Rightarrow> (Inr (access_token s2), s2))"
      by (rule guard_refresh)
    from stale [OF h]
    show "posts (snd (get_access_token c e s)) = posts s @ [token_post c]"
      and "posts (snd (request c e m path ps body hs tmo s)) = posts s @ [token_post c]"
      by (simp_all add: request_posts)
  next
    assume i: "init cid secret key tnt envname aurl burl = Inr (c, access_token s, token_expiry s)"
    then have "\<not> truthy (access_token s)"
      using fresh_null by simp
    then show first: "posts (snd (request c e m path ps body hs tmo s)) = posts s @ [token_post c]"
      using stale [of s] by (simp add: request_posts)
    assume "truthy (access_token (snd (request c e m path ps body hs tmo s)))
           \<and> clock e (ticks (snd (request c e m path ps body hs tmo s)))
               < token_expiry (snd (request c e m path ps body hs tmo s)) - 60"
    from cachedcase [OF this]
    have "posts (snd (request c e m2 path2 ps2 body2 hs2 tmo2
                         (snd (request c e m path ps body hs tmo s))))
             = posts (snd (request c e m path ps body hs tmo s))"
      by (simp add: request_posts)
    with first
    show "posts (snd (request c e m2 path2 ps2 body2 hs2 tmo2
                         (snd (request c e m path ps body hs tmo s))))
             = posts s @ [token_post c]"
      by simp
  qed
qed

lemma ex_init:
  "init ''id'' ''secret'' ''key'' (Some ''123456'') ''Integration''
        (Some ''https://auth.example/token'') (Some ''https://api.example/'')
   = Inr (ex_client, JNull, 0)"
  by code_simp

lemma ex_first_request:
  "snd (request ex_client (ex_env ex_granted ex_down) ''get'' ''/tenant/x'' None None None None
          ex_fresh)
   = ex_fresh\<lparr>access_token := JStr ''tok'', token_expiry := 1900, ticks := 2,
       posts := [token_post ex_client],
       sent := [make_request ex_client (ex_env ex_granted ex_down) ''get'' ''/tenant/x''
                  None None None None (JStr ''tok'') ex_fresh]\<rparr>"
  by (simp add: request_def dispatch_def get_access_token_def refresh_access_token_def
      time_time_def ex_env_def ex_fresh_def ex_granted_def ex_down_def ex_json_response_def
      ok_def dict_get_def make_request_def)

theorem get_access_token_lazy_witness:
  "truthy (access_token ex_cached)
   \<and> clock (ex_env ex_granted ex_down) (ticks ex_cached) < token_expiry ex_cached - 60
   \<and> get_access_token ex_client (ex_env ex_granted ex_down) ex_cached
      = (Inr (JStr ''tok''), ex_cached\<lparr>ticks := 1\<rparr>)
   \<and> posts (snd (request ex_client (ex_env ex_granted ex_down) ''get'' ''/tenant/x''
                   None None None None ex_cached)) = []
   \<and> \<not> truthy (access_token ex_fresh)
   \<and> posts (snd (get_access_token ex_client (ex_env ex_granted ex_down) ex_fresh))
      = [token_post ex_client]
   \<and> init ''id'' ''secret'' ''key'' (Some ''123456'') ''Integration''
        (Some ''https://auth.example/token'') (Some ''https://api.example/'')
      = Inr (ex_client, access_token ex_fresh, token_expiry ex_fresh)
   \<and> posts (snd (request ex_client (ex_env ex_granted ex_down) ''get'' ''/tenant/x''
                   None None None None ex_fresh))
      = [token_post ex_client]
   \<and> truthy (access_token (snd (request ex_client (ex_env ex_granted ex_down) ''get''
                                 ''/tenant/x'' None None None None ex_fresh)))
   \<and> clock (ex_env ex_granted ex_down)
        (ticks (snd (request ex_client (ex_env ex_granted ex_down) ''get'' ''/tenant/x''
                       None None None None ex_fresh)))
       < token_expiry (snd (request ex_client (ex_env ex_granted ex_down) ''get''
                              ''/tenant/x'' None None None None ex_fresh)) - 60
   \<and> posts (snd (request ex_client (ex_env ex_granted ex_down) ''get'' ''/tenant/y''
                   None None None None
                   (snd (request ex_client (ex_env ex_granted ex_down) ''get'' ''/tenant/x''
                           None None None None ex_fresh))))
      = [token_post ex_client]"
proof -
  let ?e = "ex_env ex_granted ex_down"
  let ?s1 = "snd (request ex_client ?e ''get'' ''/tenant/x'' None None None None ex_fresh)"
  have a: "truthy (access_token ex_cached)
      \<and> clock ?e (ticks ex_cached) < token_expiry ex_cached - 60"
    by (simp add: ex_cached_def ex_fresh_def ex_env_def)
  have b: "\<not> truthy (access_token ex_fresh)
      \<or> token_expiry ex_fresh - 60 \<le> clock ?e (ticks ex_fresh)"
    by (simp add: ex_fresh_def)
  have i: "init ''id'' ''secret'' ''key'' (Some ''123456'') ''Integration''
        (Some ''https://auth.example/token'') (Some ''https://api.example/'')
      = Inr (ex_client, access_token ex_fresh, token_expiry ex_fresh)"
    by (simp add: ex_init ex_fresh_def)
  have d: "truthy (access_token ?s1) \<and> clock ?e (ticks ?s1) < token_expiry ?s1 - 60"
    by (simp add: ex_first_request) (simp add: ex_env_def)
  note A = get_access_token_lazy [of ex_cached ?e ex_client
      "''get''" "''/tenant/x''" None None None None]
  note B = get_access_token_lazy [of ex_fresh ?e ex_client
      "''get''" "''/tenant/x''" None None None None
      "''id''" "''secret''" "''key''" "Some ''123456''" "''Integration''"
      "Some ''https://auth.example/token''" "Some ''https://api.example/''"
      "''get''" "''/tenant/y''" None None None None]
  from A a have 1: "get_access_token ex_client ?e ex_cached
        = (Inr (access_token ex_cached), ex_cached\<lparr>ticks := Suc (ticks ex_cached)\<rparr>)"
     and 2: "posts (snd (request ex_client ?e ''get'' ''/tenant/x'' None None None None
                          ex_cached)) = posts ex_cached"
    by blast+
  from B b have 3: "posts (snd (get_access_token ex_client ?e ex_fresh))
        = posts ex_fresh @ [token_post ex_client]"
    by blast
  from B i d have 4: "posts ?s1 = posts ex_fresh @ [token_post ex_client]"
    and 5: "posts (snd (request ex_client ?e ''get'' ''/tenant/y'' None None None None ?s1))
      = posts ex_fresh @ [token_post ex_client]"
    by blast+
  have c1: "access_token ex_cached = JStr ''tok''" "ticks ex_cached = 0" "posts ex_cached = []"
    by (simp_all add: ex_cached_def ex_fresh_def)
  have f1: "posts ex_fresh = []" "\<not> truthy (access_token ex_fresh)"
    by (simp_all add: ex_fresh_def)
  show ?thesis
    using a 1 2 3 4 5 i d by (simp add: c1 f1)
qed

text \<open>
  Claim C2.  Two failing outcomes of the exchange on which \<^verbatim>\<open>_refresh_access_token\<close> does
  not raise \<^verbatim>\<open>ServiceTitanAuthError\<close>, and one on which it leaves the credential half
  replaced.  A response with status 200 whose body is a page of HTML has no
  \<^verbatim>\<open>access_token\<close>: \<^verbatim>\<open>response.json()\<close> on the success path stands outside any \<^verbatim>\<open>try\<close> and the
  decoder's error leaves the method.  A response with status 200 and body \<^verbatim>\<open>[]\<close> has none
  either: a list has no method \<^verbatim>\<open>get\<close>, and \<^verbatim>\<open>AttributeError\<close> leaves the method.  In both the
  stored token and expiry stay as they were.  A response with status 200, a token and
  the integer \<open>2^1024\<close> as \<^verbatim>\<open>expires_in\<close> makes \<^verbatim>\<open>float\<close> raise \<^verbatim>\<open>OverflowError\<close> after the
  assignment of the token: the new token is stored with the old expiry.
\<close>

theorem refresh_failure_not_auth_error:
  "refresh_access_token ex_client (ex_env ex_html ex_down) ex_cached
     = (Inl JSONDecodeError, ex_cached\<lparr>posts := [token_post ex_client]\<rparr>)
   \<and> \<not> is_auth_error JSONDecodeError
   \<and> refresh_access_token ex_client (ex_env (ex_granted_with (JArr [])) ex_down) ex_cached
     = (Inl AttributeError, ex_cached\<lparr>posts := [token_post ex_client]\<rparr>)
   \<and> \<not> is_auth_error AttributeError
   \<and> refresh_access_token ex_client
        (ex_env (ex_granted_with
           (JObj [(''access_token'', JStr ''new''), (''expires_in'', JInt (2 ^ 1024))])) ex_down)
        ex_cached
     = (Inl OverflowError,
        ex_cached\<lparr>posts := [token_post ex_client], access_token := JStr ''new'', ticks := 1\<rparr>)
   \<and> access_token ex_cached = JStr ''tok''
   \<and> token_expiry (ex_cached\<lparr>posts := [token_post ex_client], access_token := JStr ''new'',
                       ticks := 1\<rparr>) = token_expiry ex_cached"
  by (simp add: refresh_access_token_def ex_env_def ex_html_def ex_granted_with_def
        ex_text_response_def ex_json_response_def ex_cached_def ex_fresh_def ok_def dict_get_def
        time_time_def)

text \<open>
  What does hold of the failures: when the transport raises, when the response is not
  \<^verbatim>\<open>ok\<close>, and when the response is \<^verbatim>\<open>ok\<close>, its body decodes to an object and the object has
  no \<^verbatim>\<open>access_token\<close> (or one that is false in Python's sense: \<^verbatim>\<open>null\<close>, the empty string),
  \<^verbatim>\<open>_refresh_access_token\<close> raises \<^verbatim>\<open>ServiceTitanAuthError\<close> and the state it leaves differs
  from the one it found only by the recorded call: the stored token and the stored expiry
  are what they were.
\<close>

theorem refresh_failure_atomic:
  "(auth_reply e (length (posts s)) (token_post c) = Raised exc \<longrightarrow>
      refresh_access_token c e s =
        (Inl (ServiceTitanAuthError (AuthConnectFailed exc)),
         s\<lparr>posts := posts s @ [token_post c]\<rparr>))
   \<and> (auth_reply e (length (posts s)) (token_post c) = Responded r \<and> \<not> ok r \<longrightarrow>
      refresh_access_token c e s =
        (Inl (ServiceTitanAuthError (AuthStatusFailed (status_code r) (err_text r))),
         s\<lparr>posts := posts s @ [token_post c]\<rparr>))
   \<and> (auth_reply e (length (posts s)) (token_post c) = Responded r \<and> ok r
        \<and> resp_json r = Some (JObj d) \<and> \<not> truthy (dict_get d ''access_token'') \<longrightarrow>
      refresh_access_token c e s =
        (Inl (ServiceTitanAuthError AuthNoAccessToken),
         s\<lparr>posts := posts s @ [token_post c]\<rparr>))
   \<and> access_token (s\<lparr>posts := posts s @ [token_post c]\<rparr>) = access_token s
   \<and> token_expiry (s\<lparr>posts := posts s @ [token_post c]\<rparr>) = token_expiry s"
  by (simp add: refresh_access_token_def Let_def)

theorem refresh_failure_atomic_witness:
  "refresh_access_token ex_client (ex_env ex_unreachable ex_down) ex_cached =
     (Inl (ServiceTitanAuthError (AuthConnectFailed ''connection refused'')),
      ex_cached\<lparr>posts := [token_post ex_client]\<rparr>)
   \<and> \<not> ok (ex_text_response 401 ''text/plain'' ''denied'')
   \<and> refresh_access_token ex_client (ex_env ex_denied ex_down) ex_cached =
     (Inl (ServiceTitanAuthError (AuthStatusFailed 401 (ErrText ''denied''))),
      ex_cached\<lparr>posts := [token_post ex_client]\<rparr>)
   \<and> ok (ex_json_response 200 (JObj [(''expires_in'', JInt 900)]))
   \<and> \<not> truthy (dict_get [(''expires_in'', JInt 900)] ''access_token'')
   \<and> refresh_access_token ex_client (ex_env ex_tokenless ex_down) ex_cached =
     (Inl (ServiceTitanAuthError AuthNoAccessToken),
      ex_cached\<lparr>posts := [token_post ex_client]\<rparr>)
   \<and> access_token (ex_cached\<lparr>posts := [token_post ex_client]\<rparr>) = JStr ''tok''
   \<and> token_expiry (ex_cached\<lparr>posts := [token_post ex_client]\<rparr>) = 1900"
  using refresh_failure_atomic [of "ex_env ex_unreachable ex_down" ex_cached ex_client
          "''connection refused''"]
    refresh_failure_atomic [of "ex_env ex_denied ex_down" ex_cached ex_client _
          "ex_text_response 401 ''text/plain'' ''denied''"]
    refresh_failure_atomic [of "ex_env ex_tokenless ex_down" ex_cached ex_client _
          "ex_json_response 200 (JObj [(''expires_in'', JInt 900)])"
          "[(''expires_in'', JInt 900)]"]
  by (simp add: ex_env_def ex_unreachable_def ex_denied_def ex_tokenless_def ex_cached_def
       ex_fresh_def ex_text_response_def ex_json_response_def ok_def dict_get_def err_text_def)

text \<open>
  Claim C3.  The response \<^verbatim>\<open>{"access_token": "tok", "expires_in": true}\<close> is a successful
  one whose \<^verbatim>\<open>expires_in\<close> is not a number.  \<^verbatim>\<open>isinstance(True, (int, float))\<close> holds in
  Python, so the default of 900 is not taken and \<^verbatim>\<open>float(True)\<close> is added to the clock: with
  the clock at 1000 the expiry stored is 1001, not 1900.
\<close>

theorem refresh_boolean_expires_in:
  "refresh_access_token ex_client (ex_env ex_granted_bool ex_down) ex_fresh =
     (Inr (), ex_fresh\<lparr>access_token := JStr ''tok'', token_expiry := 1001, ticks := 1,
                      posts := [token_post ex_client]\<rparr>)"
  by (simp add: refresh_access_token_def ex_env_def ex_granted_bool_def ex_json_response_def
        ex_fresh_def ok_def dict_get_def time_time_def)

subsection \<open>More on the token refresher\<close>

text \<open>
  The refresher on a successful response (\<^verbatim>\<open>ok\<close>, a JSON object with a true
  \<^verbatim>\<open>access_token\<close>): the token stored is the response's, and the expiry stored is the clock
  reading taken after the response plus \<^verbatim>\<open>expires_in\<close> when that is an integer within the
  range of \<^verbatim>\<open>float\<close> or a float, plus 900 when it is absent or of any type but integer,
  float and boolean.
\<close>

theorem refresh_success:
  assumes "auth_reply e (length (posts s)) (token_post c) = Responded r" and "ok r"
    and "resp_json r = Some (JObj d)" and "truthy (dict_get d ''access_token'')"
  shows "(dict_get d ''expires_in'' = JInt i \<and> \<bar>i\<bar> < 2 ^ 1024 - 2 ^ 970 \<longrightarrow>
           refresh_access_token c e s =
             (Inr (), s\<lparr>posts := posts s @ [token_post c],
                        access_token := dict_get d ''access_token'',
                        ticks := Suc (ticks s),
                        token_expiry := clock e (ticks s) + real_of_int i\<rparr>))
       \<and> (dict_get d ''expires_in'' = JFloat x \<longrightarrow>
           refresh_access_token c e s =
             (Inr (), s\<lparr>posts := posts s @ [token_post c],
                        access_token := dict_get d ''access_token'',
                        ticks := Suc (ticks s),
                        token_expiry := clock e (ticks s) + x\<rparr>))
       \<and> (\<not> isinstance_int_float (dict_get d ''expires_in'') \<longrightarrow>
           refresh_access_token c e s =
             (Inr (), s\<lparr>posts := posts s @ [token_post c],
                        access_token := dict_get d ''access_token'',
                        ticks := Suc (ticks s),
                        token_expiry := clock e (ticks s) + 900\<rparr>))
       \<and> (map_of d ''expires_in'' = None \<longrightarrow> \<not> isinstance_int_float (dict_get d ''expires_in''))"
  using assms by (simp add: refresh_access_token_def Let_def time_time_def dict_get_def)

theorem refresh_success_witness:
  "ok (ex_json_response 200 (JObj [(''access_token'', JStr ''tok''), (''expires_in'', JInt 900)]))
   \<and> truthy (dict_get [(''access_token'', JStr ''tok''), (''expires_in'', JInt 900)] ''access_token'')
   \<and> refresh_access_token ex_client (ex_env ex_granted ex_down) ex_fresh
      = (Inr (), ex_fresh\<lparr>posts := [token_post ex_client], access_token := JStr ''tok'',
                          ticks := 1, token_expiry := 1900\<rparr>)
   \<and> \<not> isinstance_int_float (dict_get [(''access_token'', JStr ''tok'')] ''expires_in'')
   \<and> refresh_access_token ex_client
        (ex_env (ex_granted_with (JObj [(''access_token'', JStr ''tok'')])) ex_down) ex_fresh
      = (Inr (), ex_fresh\<lparr>posts := [token_post ex_client], access_token := JStr ''tok'',
                          ticks := 1, token_expiry := 1900\<rparr>)"
proof -
  have a: "auth_reply (ex_env ex_granted ex_down) (length (posts ex_fresh)) (token_post ex_client)
      = Responded (ex_json_response 200
          (JObj [(''access_token'', JStr ''tok''), (''expires_in'', JInt 900)]))"
    by (simp add: ex_env_def ex_granted_def)
  have b: "auth_reply (ex_env (ex_granted_with (JObj [(''access_token'', JStr ''tok'')])) ex_down)
        (length (posts ex_fresh)) (token_post ex_client)
      = Responded (ex_json_response 200 (JObj [(''access_token'', JStr ''tok'')]))"
    by (simp add: ex_env_def ex_granted_with_def)
  have k: "ok (ex_json_response 200 j)" "resp_json (ex_json_response 200 j) = Some j" for j
    by (simp_all add: ok_def ex_json_response_def)
  have t: "truthy (dict_get [(''access_token'', JStr ''tok''), (''expires_in'', JInt 900)] ''access_token'')"
    "truthy (dict_get [(''access_token'', JStr ''tok'')] ''access_token'')"
    by (simp_all add: dict_get_def)
  from refresh_success [OF a k(1) k(2) t(1), of 900]
  have 1: "refresh_access_token ex_client (ex_env ex_granted ex_down) ex_fresh
      = (Inr (), ex_fresh\<lparr>posts := [token_post ex_client], access_token := JStr ''tok'',
                          ticks := 1, token_expiry := 1900\<rparr>)"
    by (simp add: dict_get_def ex_env_def ex_fresh_def)
  from refresh_success [OF b k(1) k(2) t(2)]
  have 2: "refresh_access_token ex_client
        (ex_env (ex_granted_with (JObj [(''access_token'', JStr ''tok'')])) ex_down) ex_fresh
      = (Inr (), ex_fresh\<lparr>posts := [token_post ex_client], access_token := JStr ''tok'',
                          ticks := 1, token_expiry := 1900\<rparr>)"
    by (simp add: dict_get_def ex_env_def ex_fresh_def)
  show ?thesis
    using 1 2 k t by (simp add: dict_get_def)
qed

text \<open>
  The refresher on the successful responses it was not written for.  A body that does not
  decode raises the decoder's error, a decoded body that is not an object raises
  \<^verbatim>\<open>AttributeError\<close>; neither is a \<^verbatim>\<open>ServiceTitanAuthError\<close>, and both leave the token and the
  expiry as they were.  An integer \<^verbatim>\<open>expires_in\<close> of magnitude \<open>2^1024 - 2^970\<close> or more makes
  \<^verbatim>\<open>float\<close> raise \<^verbatim>\<open>OverflowError\<close> after the token has been assigned: the new token is then
  stored with the old expiry.
\<close>

theorem refresh_other_failures:
  assumes "auth_reply e (length (posts s)) (token_post c) = Responded r" and "ok r"
  shows "(resp_json r = None \<longrightarrow>
            refresh_access_token c e s = (Inl JSONDecodeError, s\<lparr>posts := posts s @ [token_post c]\<rparr>))
       \<and> (resp_json r = Some j \<and> (\<forall>d. j \<noteq> JObj d) \<longrightarrow>
            refresh_access_token c e s = (Inl AttributeError, s\<lparr>posts := posts s @ [token_post c]\<rparr>))
       \<and> (resp_json r = Some (JObj d) \<and> truthy (dict_get d ''access_token'')
            \<and> dict_get d ''expires_in'' = JInt i \<and> 2 ^ 1024 - 2 ^ 970 \<le> \<bar>i\<bar> \<longrightarrow>
            refresh_access_token c e s =
              (Inl OverflowError, s\<lparr>posts := posts s @ [token_post c],
                                   access_token := dict_get d ''access_token'',
                                   ticks := Suc (ticks s)\<rparr>))"
  using assms
  by (cases j) (simp_all add: refresh_access_token_def Let_def time_time_def)

theorem refresh_other_failures_witness:
  "ok (ex_text_response 200 ''text/html'' ''<html></html>'')
   \<and> resp_json (ex_text_response 200 ''text/html'' ''<html></html>'') = None
   \<and> refresh_access_token ex_client (ex_env ex_html ex_down) ex_cached
      = (Inl JSONDecodeError, ex_cached\<lparr>posts := [token_post ex_client]\<rparr>)
   \<and> refresh_access_token ex_client (ex_env (ex_granted_with (JArr [])) ex_down) ex_cached
      = (Inl AttributeError, ex_cached\<lparr>posts := [token_post ex_client]\<rparr>)
   \<and> refresh_access_token ex_client
        (ex_env (ex_granted_with
           (JObj [(''access_token'', JStr ''new''), (''expires_in'', JInt (2 ^ 1024))])) ex_down)
        ex_cached
      = (Inl OverflowError,
         ex_cached\<lparr>posts := [token_post ex_client], access_token := JStr ''new'', ticks := 1\<rparr>)"
proof -
  have k: "ok (ex_json_response 200 j)" "resp_json (ex_json_response 200 j) = Some j" for j
    by (simp_all add: ok_def ex_json_response_def)
  have h: "ok (ex_text_response 200 ''text/html'' ''<html></html>'')"
    "resp_json (ex_text_response 200 ''text/html'' ''<html></html>'') = None"
    by (simp_all add: ok_def ex_text_response_def)
  have a: "auth_reply (ex_env ex_html ex_down) (length (posts ex_cached)) (token_post ex_client)
      = Responded (ex_text_response 200 ''text/html'' ''<html></html>'')"
    by (simp add: ex_env_def ex_html_def)
  have b: "auth_reply (ex_env (ex_granted_with j) ex_down) (length (posts ex_cached))
        (token_post ex_client) = Responded (ex_json_response 200 j)" for j
    by (simp add: ex_env_def ex_granted_with_def)
  have p: "posts ex_cached = []" "ticks ex_cached = 0"
    by (simp_all add: ex_cached_def ex_fresh_def)
  from refresh_other_failures [OF a h(1)] h(2)
  have 1: "refresh_access_token ex_client (ex_env ex_html ex_down) ex_cached
      = (Inl JSONDecodeError, ex_cached\<lparr>posts := [token_post ex_client]\<rparr>)"
    by (simp add: p)
  from refresh_other_failures [OF b k(1), of "JArr []" "JArr []"] k(2)
  have 2: "refresh_access_token ex_client (ex_env (ex_granted_with (JArr [])) ex_down) ex_cached
      = (Inl AttributeError, ex_cached\<lparr>posts := [token_post ex_client]\<rparr>)"
    by (simp add: p)
  from refresh_other_failures [OF b k(1),
      of "JObj [(''access_token'', JStr ''new''), (''expires_in'', JInt (2 ^ 1024))]" _
         "[(''access_token'', JStr ''new''), (''expires_in'', JInt (2 ^ 1024))]" "2 ^ 1024"] k(2)
  have 3: "refresh_access_token ex_client
        (ex_env (ex_granted_with
           (JObj [(''access_token'', JStr ''new''), (''expires_in'', JInt (2 ^ 1024))])) ex_down)
        ex_cached
      = (Inl OverflowError,
         ex_cached\<lparr>posts := [token_post ex_client], access_token := JStr ''new'', ticks := 1\<rparr>)"
    by (simp add: p dict_get_def)
  show ?thesis
    using 1 2 3 h by simp
qed

section \<open>The request dispatcher\<close>

subsection \<open>Resolving the URL\<close>

lemma replace_first_prefix:
  "old \<noteq> [] \<Longrightarrow> startswith s old \<Longrightarrow> replace_first old new s = new @ drop (length old) s"
  by (cases s) (auto simp: startswith_def)

lemma lstrip_slash_shape:
  "\<exists>n. path = replicate n (CHR ''/'') @ lstrip_slash path"
proof -
  have "path = takeWhile (\<lambda>c. c = CHR ''/'') path @ lstrip_slash path"
    by (simp add: lstrip_slash_def)
  moreover have "takeWhile (\<lambda>c. c = CHR ''/'') path
      = replicate (length (takeWhile (\<lambda>c. c = CHR ''/'') path)) (CHR ''/'')"
    by (induction path) auto
  ultimately show ?thesis by metis
qed

lemma lstrip_slash_no_slash: "\<not> startswith (lstrip_slash path) ''/''"
proof -
  have "lstrip_slash path = [] \<or> hd (lstrip_slash path) \<noteq> CHR ''/''"
    unfolding lstrip_slash_def using hd_dropWhile [of "\<lambda>c. c = CHR ''/''" path] by blast
  then show ?thesis
    by (cases "lstrip_slash path") (auto simp: startswith_def)
qed

text \<open>
  Claim C4.  A path that starts with \<^verbatim>\<open>http://\<close> or \<^verbatim>\<open>https://\<close> is returned as it is,
  whatever the client's tenant.  Any other path loses its leading slashes (what is left
  does not start with a slash); if the client has a tenant (not \<^verbatim>\<open>None\<close>, not empty) and
  what is left starts with \<^verbatim>\<open>tenant/\<close>, the tenant and a slash are inserted right after
  that segment, otherwise nothing is inserted; the result is joined with one slash onto
  the base URL without its trailing slashes.  With tenant \<^verbatim>\<open>123456\<close> the path
  \<^verbatim>\<open>tenant/employees\<close> resolves to \<^verbatim>\<open>tenant/123456/employees\<close> under the base URL, and
  \<^verbatim>\<open>https://x/y\<close> resolves to itself.
\<close>

theorem prepare_url_cases:
  "(startswith path ''http://'' \<or> startswith path ''https://'' \<longrightarrow> prepare_url c path = path)
   \<and> (\<not> startswith path ''http://'' \<and> \<not> startswith path ''https://'' \<longrightarrow>
        (tenant c = Some t \<and> t \<noteq> [] \<and> startswith (lstrip_slash path) ''tenant/'' \<longrightarrow>
           prepare_url c path =
             rstrip_slash (base_url c) @ ''/'' @ ''tenant/'' @ t @ ''/'' @ drop 7 (lstrip_slash path))
      \<and> (tenant c = None \<or> tenant c = Some [] \<or> \<not> startswith (lstrip_slash path) ''tenant/'' \<longrightarrow>
           prepare_url c path = rstrip_slash (base_url c) @ ''/'' @ lstrip_slash path))
   \<and> (\<exists>n. path = replicate n (CHR ''/'') @ lstrip_slash path)
   \<and> \<not> startswith (lstrip_slash path) ''/''
   \<and> (tenant c = Some ''123456'' \<longrightarrow>
        prepare_url c ''tenant/employees'' = rstrip_slash (base_url c) @ ''/'' @ ''tenant/123456/employees'')
   \<and> prepare_url c ''https://x/y'' = ''https://x/y''"
proof (intro conjI impI)
  show "\<exists>n. path = replicate n (CHR ''/'') @ lstrip_slash path"
    by (rule lstrip_slash_shape)
  show "\<not> startswith (lstrip_slash path) ''/''"
    by (rule lstrip_slash_no_slash)
  show "prepare_url c ''https://x/y'' = ''https://x/y''"
    by (simp add: prepare_url_def startswith_def)
next
  assume "startswith path ''http://'' \<or> startswith path ''https://''"
  then show "prepare_url c path = path"
    by (auto simp: prepare_url_def)
next
  assume a: "\<not> startswith path ''http://'' \<and> \<not> startswith path ''https://''"
    and b: "tenant c = Some t \<and> t \<noteq> [] \<and> startswith (lstrip_slash path) ''tenant/''"
  from b have "replace_first ''tenant/'' (''tenant/'' @ t @ ''/'') (lstrip_slash path)
      = (''tenant/'' @ t @ ''/'') @ drop (length ''tenant/'') (lstrip_slash path)"
    by (intro replace_first_prefix) simp_all
  with a b show "prepare_url c path =
             rstrip_slash (base_url c) @ ''/'' @ ''tenant/'' @ t @ ''/'' @ drop 7 (lstrip_slash path)"
    by (simp add: prepare_url_def Let_def eval_nat_numeral)
next
  assume a: "\<not> startswith path ''http://'' \<and> \<not> startswith path ''https://''"
    and b: "tenant c = None \<or> tenant c = Some [] \<or> \<not> startswith (lstrip_slash path) ''tenant/''"
  then show "prepare_url c path = rstrip_slash (base_url c) @ ''/'' @ lstrip_slash path"
    by (auto simp: prepare_url_def Let_def split: option.splits)
next
  assume "tenant c = Some ''123456''"
  then show "prepare_url c ''tenant/employees'' = rstrip_slash (base_url c) @ ''/'' @ ''tenant/123456/employees''"
    by (simp add: prepare_url_def startswith_def lstrip_slash_def)
qed

theorem prepare_url_cases_witness:
  "startswith ''http://host/a'' ''http://''
   \<and> prepare_url ex_client ''http://host/a'' = ''http://host/a''
   \<and> \<not> startswith ''//tenant/employees'' ''http://''
   \<and> \<not> startswith ''//tenant/employees'' ''https://''
   \<and> tenant ex_client = Some ''123456''
   \<and> startswith (lstrip_slash ''//tenant/employees'') ''tenant/''
   \<and> prepare_url ex_client ''//tenant/employees'' = ''https://api.example/tenant/123456/employees''
   \<and> \<not> startswith (lstrip_slash ''jpm/v2/tenant/jobs'') ''tenant/''
   \<and> prepare_url ex_client ''jpm/v2/tenant/jobs'' = ''https://api.example/jpm/v2/tenant/jobs''
   \<and> prepare_url ex_client ''tenant/employees'' = ''https://api.example/tenant/123456/employees''"
proof -
  have h1: "startswith ''http://host/a'' ''http://''"
    and h2: "\<not> startswith ''//tenant/employees'' ''http://'' \<and> \<not> startswith ''//tenant/employees'' ''https://''"
    and h3: "tenant ex_client = Some ''123456'' \<and> ''123456'' \<noteq> [] \<and> startswith (lstrip_slash ''//tenant/employees'') ''tenant/''"
    and h4: "\<not> startswith ''jpm/v2/tenant/jobs'' ''http://'' \<and> \<not> startswith ''jpm/v2/tenant/jobs'' ''https://''"
    and h5: "\<not> startswith (lstrip_slash ''jpm/v2/tenant/jobs'') ''tenant/''"
    by (simp_all add: startswith_def lstrip_slash_def ex_client_def)
  have r: "rstrip_slash (base_url ex_client) = ''https://api.example''"
    by (simp add: rstrip_slash_def ex_client_def)
  have l: "lstrip_slash ''//tenant/employees'' = ''tenant/employees''"
     "lstrip_slash ''jpm/v2/tenant/jobs'' = ''jpm/v2/tenant/jobs''"
    by (simp_all add: lstrip_slash_def)
  from prepare_url_cases [of "''http://host/a''" ex_client] h1
  have 1: "prepare_url ex_client ''http://host/a'' = ''http://host/a''" by blast
  from prepare_url_cases [of "''//tenant/employees''" ex_client "''123456''"] h2 h3
  have 2: "prepare_url ex_client ''//tenant/employees'' =
     rstrip_slash (base_url ex_client) @ ''/'' @ ''tenant/'' @ ''123456'' @ ''/'' @ drop 7 (lstrip_slash ''//tenant/employees'')"
    by blast
  from prepare_url_cases [of "''jpm/v2/tenant/jobs''" ex_client] h4 h5
  have 3: "prepare_url ex_client ''jpm/v2/tenant/jobs'' = rstrip_slash (base_url ex_client) @ ''/'' @ lstrip_slash ''jpm/v2/tenant/jobs''"
    by blast
  from prepare_url_cases [of _ ex_client] h3
  have 4: "prepare_url ex_client ''tenant/employees'' = rstrip_slash (base_url ex_client) @ ''/'' @ ''tenant/123456/employees''"
    by blast
  show ?thesis
    using h1 h2 h3 h5 1 2 3 4 by (simp add: r l)
qed

subsection \<open>Building the headers\<close>

lemma critical_names: "critical ''Authorization''" "critical ''ST-App-Key''"
  unfolding critical_def by code_simp+

lemma map_of_add_header:
  "map_of (add_header kv acc) k =
     (if \<not> critical (fst kv) \<and> k = fst kv then Some (snd kv) else map_of acc k)"
  by (simp add: add_header_def update_conv')

lemma map_of_fold_add_header:
  "distinct (map fst hs) \<Longrightarrow>
   map_of (fold add_header hs acc) k =
     (if critical k then map_of acc k
      else case map_of hs k of Some v \<Rightarrow> Some v | None \<Rightarrow> map_of acc k)"
proof (induction hs arbitrary: acc)
  case Nil
  then show ?case by simp
next
  case (Cons kv hs)
  have "map_of hs (fst kv) = None"
    using Cons.prems by (cases kv) (auto simp: map_of_eq_None_iff)
  with Cons show ?case
    by (cases kv) (auto simp: map_of_add_header split: option.splits)
qed

lemma map_of_request_headers:
  assumes "\<forall>h. hs = Some h \<longrightarrow> distinct (map fst h)"
  shows "map_of (request_headers c e token hs) k =
     (if k = ''Authorization'' then Some (''Bearer '' @ fstr e token)
      else if k = ''ST-App-Key'' then Some (app_key c)
      else if critical k then None
      else case hs of None \<Rightarrow> None | Some h \<Rightarrow> map_of h k)"
proof (cases hs)
  case None
  then show ?thesis by (simp add: request_headers_def)
next
  case (Some h)
  with assms have d: "distinct (map fst h)" by simp
  show ?thesis
  proof (cases "h = []")
    case True
    with Some show ?thesis by (simp add: request_headers_def)
  next
    case False
    with Some show ?thesis
      using critical_names
      by (auto simp: request_headers_def Let_def map_of_fold_add_header [OF d] split: option.splits)
  qed
qed

lemma guard_token:
  "get_access_token c e s = (Inr token, s1) \<Longrightarrow> access_token s1 = token"
  by (auto simp: get_access_token_def time_time_def split: prod.splits sum.splits if_splits)

lemma dispatch_sent:
  "get_access_token c e s = (Inr token, s1) \<Longrightarrow>
   snd (dispatch c e m path ps body hs tmo s)
     = s1\<lparr>sent := sent s1 @ [make_request c e m path ps body hs tmo token s1]\<rparr>"
  by (simp add: dispatch_def Let_def split: outcome.splits)

lemma dispatch_unsent:
  "get_access_token c e s = (Inl err, s1) \<Longrightarrow>
   dispatch c e m path ps body hs tmo s = (Inl err, s1)"
  by (simp add: dispatch_def)

lemma request_state:
  "snd (request c e m path ps body hs tmo s) = snd (dispatch c e m path ps body hs tmo s)"
  "snd (request_root c e m path ps body hs tmo s) = snd (dispatch c e m path ps body hs tmo s)"
  by (auto simp: request_def request_root_def split: prod.splits sum.splits)

text \<open>
  Claim C5.  Let the guard have returned the token (which is then the stored one), and let
  the caller's headers be a dictionary (no key twice).  The request that \<^verbatim>\<open>_request\<close> hands
  to the transport, in either copy of the class, carries the header dictionary
  \<open>request_headers\<close>, in which \<^verbatim>\<open>Authorization\<close> is \<^verbatim>\<open>Bearer\<close>, a space and the token
  (\<^verbatim>\<open>str\<close> of it when it is not a string), \<^verbatim>\<open>ST-App-Key\<close> is the client's application key,
  no other key that lower-cases to \<^verbatim>\<open>authorization\<close> or \<^verbatim>\<open>st-app-key\<close> is present, and every
  other key has the value the caller gave it, or none when the caller gave none.
\<close>

theorem request_headers_precedence:
  assumes "get_access_token c e s = (Inr token, s1)"
    and "\<forall>h. hs = Some h \<longrightarrow> distinct (map fst h)"
  shows "sent (snd (request c e m path ps body hs tmo s))
           = sent s1 @ [make_request c e m path ps body hs tmo token s1]
       \<and> sent (snd (request_root c e m path ps body hs tmo s))
           = sent s1 @ [make_request c e m path ps body hs tmo token s1]
       \<and> access_token (snd (request c e m path ps body hs tmo s)) = token
       \<and> rq_headers (make_request c e m path ps body hs tmo token s1)
           = request_headers c e token hs
       \<and> map_of (request_headers c e token hs) ''Authorization''
           = Some (''Bearer '' @ fstr e token)
       \<and> (\<forall>t. token = JStr t \<longrightarrow>
            map_of (request_headers c e token hs) ''Authorization'' = Some (''Bearer '' @ t))
       \<and> map_of (request_headers c e token hs) ''ST-App-Key'' = Some (app_key c)
       \<and> (\<forall>k. (lower k = ''authorization'' \<or> lower k = ''st-app-key'')
              \<and> k \<noteq> ''Authorization'' \<and> k \<noteq> ''ST-App-Key'' \<longrightarrow>
            map_of (request_headers c e token hs) k = None)
       \<and> (\<forall>k. lower k \<noteq> ''authorization'' \<and> lower k \<noteq> ''st-app-key'' \<longrightarrow>
            map_of (request_headers c e token hs) k
              = (case hs of None \<Rightarrow> None | Some h \<Rightarrow> map_of h k))"
proof -
  note st = dispatch_sent [OF assms(1), of m path ps body hs tmo]
  note mp = map_of_request_headers [OF assms(2), of c e token]
  have auth: "map_of (request_headers c e token hs) ''Authorization''
           = Some (''Bearer '' @ fstr e token)"
    by (simp add: mp)
  have key: "map_of (request_headers c e token hs) ''ST-App-Key'' = Some (app_key c)"
    by (simp add: mp)
  have crit: "map_of (request_headers c e token hs) k = None"
    if "(lower k = ''authorization'' \<or> lower k = ''st-app-key'')
              \<and> k \<noteq> ''Authorization'' \<and> k \<noteq> ''ST-App-Key''" for k
    using that by (simp add: mp critical_def)
  have other: "map_of (request_headers c e token hs) k
              = (case hs of None \<Rightarrow> None | Some h \<Rightarrow> map_of h k)"
    if "lower k \<noteq> ''authorization'' \<and> lower k \<noteq> ''st-app-key''" for k
  proof -
    from that critical_names have "k \<noteq> ''Authorization''" "k \<noteq> ''ST-App-Key''" "\<not> critical k"
      by (auto simp: critical_def)
    then show ?thesis by (simp add: mp)
  qed
  show ?thesis
    using auth key crit other guard_token [OF assms(1)]
    by (auto simp: request_state st make_request_def fstr_def)
qed

lemma ex_guard_cached:
  "get_access_token ex_client (ex_env ex_granted ex_down) ex_cached
     = (Inr (JStr ''tok''), ex_cached\<lparr>ticks := 1\<rparr>)"
  by (simp add: get_access_token_def time_time_def ex_env_def ex_cached_def ex_fresh_def)

theorem request_headers_precedence_witness:
  "get_access_token ex_client (ex_env ex_granted ex_down) ex_cached
     = (Inr (JStr ''tok''), ex_cached\<lparr>ticks := 1\<rparr>)
   \<and> distinct (map fst ex_headers)
   \<and> lower ''authorization'' = ''authorization''
   \<and> lower ''ST-APP-KEY'' = ''st-app-key''
   \<and> lower ''Accept'' = ''accept''
   \<and> map_of (request_headers ex_client (ex_env ex_granted ex_down) (JStr ''tok'') (Some ex_headers))
        ''Authorization'' = Some ''Bearer tok''
   \<and> map_of (request_headers ex_client (ex_env ex_granted ex_down) (JStr ''tok'') (Some ex_headers))
        ''ST-App-Key'' = Some ''key''
   \<and> map_of (request_headers ex_client (ex_env ex_granted ex_down) (JStr ''tok'') (Some ex_headers))
        ''authorization'' = None
   \<and> map_of (request_headers ex_client (ex_env ex_granted ex_down) (JStr ''tok'') (Some ex_headers))
        ''ST-APP-KEY'' = None
   \<and> map_of (request_headers ex_client (ex_env ex_granted ex_down) (JStr ''tok'') (Some ex_headers))
        ''Accept'' = Some ''text/csv''
   \<and> rq_headers (last (sent (snd (request ex_client (ex_env ex_granted ex_down) ''GET'' ''x''
        None None (Some ex_headers) None ex_cached))))
      = request_headers ex_client (ex_env ex_granted ex_down) (JStr ''tok'') (Some ex_headers)"
proof -
  have d: "\<forall>h. Some ex_headers = Some h \<longrightarrow> distinct (map fst h)"
    by (simp add: ex_headers_def)
  have l: "lower ''authorization'' = ''authorization''" "lower ''ST-APP-KEY'' = ''st-app-key''"
    "lower ''Accept'' = ''accept''"
    by code_simp+
  note T = request_headers_precedence [OF ex_guard_cached d, of "''GET''" "''x''" None None None]
  have a: "app_key ex_client = ''key''"
    by (simp add: ex_client_def)
  have m: "map_of ex_headers ''Accept'' = Some ''text/csv''"
    by (simp add: ex_headers_def)
  let ?out = "request_headers ex_client (ex_env ex_granted ex_down) (JStr ''tok'') (Some ex_headers)"
  from T have crit: "\<forall>k. (lower k = ''authorization'' \<or> lower k = ''st-app-key'')
              \<and> k \<noteq> ''Authorization'' \<and> k \<noteq> ''ST-App-Key'' \<longrightarrow> map_of ?out k = None"
    and other: "\<forall>k. lower k \<noteq> ''authorization'' \<and> lower k \<noteq> ''st-app-key'' \<longrightarrow>
            map_of ?out k = (case Some ex_headers of None \<Rightarrow> None | Some h \<Rightarrow> map_of h k)"
    and auth: "\<forall>t. JStr ''tok'' = JStr t \<longrightarrow> map_of ?out ''Authorization'' = Some (''Bearer '' @ t)"
    and key: "map_of ?out ''ST-App-Key'' = Some (app_key ex_client)"
    and snt: "sent (snd (request ex_client (ex_env ex_granted ex_down) ''GET'' ''x''
        None None (Some ex_headers) None ex_cached))
       = sent (ex_cached\<lparr>ticks := 1\<rparr>) @ [make_request ex_client (ex_env ex_granted ex_down) ''GET'' ''x''
        None None (Some ex_headers) None (JStr ''tok'') (ex_cached\<lparr>ticks := 1\<rparr>)]"
    and hdrs: "rq_headers (make_request ex_client (ex_env ex_granted ex_down) ''GET'' ''x''
        None None (Some ex_headers) None (JStr ''tok'') (ex_cached\<lparr>ticks := 1\<rparr>)) = ?out"
    by blast+
  from crit [rule_format, of "''authorization''"] l
  have 1: "map_of ?out ''authorization'' = None" by simp
  from crit [rule_format, of "''ST-APP-KEY''"] l
  have 2: "map_of ?out ''ST-APP-KEY'' = None" by simp
  from other [rule_format, of "''Accept''"] l m
  have 3: "map_of ?out ''Accept'' = Some ''text/csv''" by simp
  from auth have 4: "map_of ?out ''Authorization'' = Some ''Bearer tok''" by simp
  show ?thesis
    using ex_guard_cached d l 1 2 3 4 key a snt hdrs by simp
qed

subsection \<open>Classifying the response\<close>

lemma dispatch_responded:
  assumes "get_access_token c e s = (Inr token, s1)"
    and "api_reply e (length (sent s1)) (make_request c e m path ps body hs tmo token s1)
           = Responded r"
  shows "fst (dispatch c e m path ps body hs tmo s) =
     (if status_code r \<ge> 400
      then Inl (ServiceTitanAPIError (APIStatusError (status_code r) (prepare_url c path) (err_text r)))
      else Inr r)"
  using assms by (simp add: dispatch_def Let_def)

lemma request_responded:
  assumes "get_access_token c e s = (Inr token, s1)"
    and "api_reply e (length (sent s1)) (make_request c e m path ps body hs tmo token s1)
           = Responded r"
  shows "fst (request c e m path ps body hs tmo s) =
     (if status_code r \<ge> 400
      then Inl (ServiceTitanAPIError (APIStatusError (status_code r) (prepare_url c path) (err_text r)))
      else Inr (represent r))"
    and "fst (request_root c e m path ps body hs tmo s) =
     (if status_code r \<ge> 400
      then Inl (ServiceTitanAPIError (APIStatusError (status_code r) (prepare_url c path) (err_text r)))
      else Inr (represent_root r))"
  using dispatch_responded [OF assms]
  by (auto simp: request_def request_root_def split: prod.splits sum.splits if_splits)

text \<open>
  Claim C6, as amended.  Let the guard have returned a token and the transport a response.
  In both copies of the class a status of 400 or more raises \<^verbatim>\<open>ServiceTitanAPIError\<close> with
  the status, the resolved URL and the body (the decoded document when the body decodes,
  the text otherwise).  For a status below 400 the package copy
  (\<^verbatim>\<open>src/servicetitan_api_client/client.py\<close>) chooses by the lower-cased content type: one
  that starts with \<^verbatim>\<open>application/json\<close> gives the decoded document, or the text when
  decoding fails; otherwise one that starts with \<^verbatim>\<open>image/\<close> or \<^verbatim>\<open>application/octet-stream\<close>
  gives the raw bytes; any other gives the text.  The copy \<^verbatim>\<open>src/client.py\<close> does not look
  at the content type: it gives the decoded document whenever the body decodes, and the
  text otherwise.
\<close>

theorem response_classification:
  assumes "get_access_token c e s = (Inr token, s1)"
    and "api_reply e (length (sent s1)) (make_request c e m path ps body hs tmo token s1)
           = Responded r"
  shows "(status_code r \<ge> 400 \<longrightarrow>
            fst (request c e m path ps body hs tmo s)
              = Inl (ServiceTitanAPIError
                       (APIStatusError (status_code r) (prepare_url c path) (err_text r)))
          \<and> fst (request_root c e m path ps body hs tmo s)
              = Inl (ServiceTitanAPIError
                       (APIStatusError (status_code r) (prepare_url c path) (err_text r)))
          \<and> (\<forall>j. resp_json r = Some j \<longrightarrow> err_text r = ErrJson j)
          \<and> (resp_json r = None \<longrightarrow> err_text r = ErrText (resp_text r)))
       \<and> (status_code r < 400 \<longrightarrow>
            (startswith (declared_type r) ''application/json'' \<longrightarrow>
               (\<forall>j. resp_json r = Some j \<longrightarrow>
                  fst (request c e m path ps body hs tmo s) = Inr (Json j))
             \<and> (resp_json r = None \<longrightarrow>
                  fst (request c e m path ps body hs tmo s) = Inr (Text (resp_text r))))
          \<and> (\<not> startswith (declared_type r) ''application/json''
               \<and> (startswith (declared_type r) ''image/''
                    \<or> startswith (declared_type r) ''application/octet-stream'') \<longrightarrow>
               fst (request c e m path ps body hs tmo s) = Inr (Bytes (resp_content r)))
          \<and> (\<not> startswith (declared_type r) ''application/json''
               \<and> \<not> startswith (declared_type r) ''image/''
               \<and> \<not> startswith (declared_type r) ''application/octet-stream'' \<longrightarrow>
               fst (request c e m path ps body hs tmo s) = Inr (Text (resp_text r)))
          \<and> (\<forall>j. resp_json r = Some j \<longrightarrow>
               fst (request_root c e m path ps body hs tmo s) = Inr (Json j))
          \<and> (resp_json r = None \<longrightarrow>
               fst (request_root c e m path ps body hs tmo s) = Inr (Text (resp_text r))))"
  using request_responded [OF assms]
  by (auto simp: represent_def represent_root_def err_text_def)

lemma ex_guard_cached_any:
  "get_access_token ex_client (ex_env ex_granted api) ex_cached
     = (Inr (JStr ''tok''), ex_cached\<lparr>ticks := 1\<rparr>)"
  by (simp add: get_access_token_def time_time_def ex_env_def ex_cached_def ex_fresh_def)

lemma ex_api: "api_reply (ex_env auth (ex_answers r)) n req = Responded r"
  by (simp add: ex_env_def ex_answers_def)

lemma ex_declared:
  "declared_type ex_plain = ''text/plain''"
  "declared_type ex_image = ''image/png''"
  "declared_type ex_broken_json = ''application/json; charset=utf-8''"
  "declared_type ex_not_found = ''application/json''"
  unfolding declared_type_def ex_plain_def ex_image_def ex_broken_json_def ex_not_found_def
    ex_text_response_def ex_json_response_def
  by code_simp+

text \<open>
  Claim C6 as stated fails on \<^verbatim>\<open>src/client.py\<close>: a response with status 200 declared as
  \<^verbatim>\<open>text/plain\<close> whose body is a JSON document is returned decoded, not as text (the package
  copy returns the text).
\<close>

theorem request_root_ignores_content_type:
  \<open>status_code ex_plain = 200
   \<and> declared_type ex_plain = ''text/plain''
   \<and> resp_text ex_plain = ''{"a":1}''
   \<and> fst (request_root ex_client (ex_env ex_granted (ex_answers ex_plain)) ''GET'' ''x''
             None None None None ex_cached)
      = Inr (Json (JObj [(''a'', JInt 1)]))
   \<and> fst (request ex_client (ex_env ex_granted (ex_answers ex_plain)) ''GET'' ''x''
             None None None None ex_cached)
      = Inr (Text ''{"a":1}'')\<close>
  using request_responded [OF ex_guard_cached_any ex_api, of ex_plain "''GET''" "''x''" None None None None]
  by (simp add: ex_declared represent_def represent_root_def startswith_def) (simp add: ex_plain_def)

theorem response_classification_witness:
  "get_access_token ex_client (ex_env ex_granted (ex_answers ex_not_found)) ex_cached
     = (Inr (JStr ''tok''), ex_cached\<lparr>ticks := 1\<rparr>)
   \<and> status_code ex_not_found = 404
   \<and> fst (request ex_client (ex_env ex_granted (ex_answers ex_not_found)) ''GET'' ''x''
            None None None None ex_cached)
      = Inl (ServiceTitanAPIError (APIStatusError 404 ''https://api.example/x''
               (ErrJson (JObj [(''title'', JStr ''Not Found'')]))))
   \<and> status_code ex_broken_json = 200
   \<and> startswith (declared_type ex_broken_json) ''application/json''
   \<and> resp_json ex_broken_json = None
   \<and> fst (request ex_client (ex_env ex_granted (ex_answers ex_broken_json)) ''GET'' ''x''
            None None None None ex_cached)
      = Inr (Text ''oops'')
   \<and> status_code ex_image = 200
   \<and> startswith (declared_type ex_image) ''image/''
   \<and> fst (request ex_client (ex_env ex_granted (ex_answers ex_image)) ''GET'' ''x''
            None None None None ex_cached)
      = Inr (Bytes ''PNG'')"
proof -
  note T = response_classification [OF ex_guard_cached_any ex_api]
  have u: "prepare_url ex_client ''x'' = ''https://api.example/x''"
    by (simp add: prepare_url_def startswith_def lstrip_slash_def rstrip_slash_def ex_client_def)
  have f: "status_code ex_not_found = 404" "resp_json ex_not_found = Some (JObj [(''title'', JStr ''Not Found'')])"
    "status_code ex_broken_json = 200" "resp_json ex_broken_json = None" "resp_text ex_broken_json = ''oops''"
    "status_code ex_image = 200" "resp_content ex_image = ''PNG''"
    by (simp_all add: ex_not_found_def ex_broken_json_def ex_image_def ex_json_response_def ex_text_response_def)
  have p: "startswith (declared_type ex_broken_json) ''application/json''"
     "startswith (declared_type ex_image) ''image/''"
     "\<not> startswith (declared_type ex_image) ''application/json''"
    by (simp_all add: ex_declared startswith_def)
  from T [of ex_not_found "''GET''" "''x''" None None None None] f
  have 1: "fst (request ex_client (ex_env ex_granted (ex_answers ex_not_found)) ''GET'' ''x''
            None None None None ex_cached)
      = Inl (ServiceTitanAPIError (APIStatusError 404 ''https://api.example/x''
               (ErrJson (JObj [(''title'', JStr ''Not Found'')]))))"
    by (simp add: u)
  from T [of ex_broken_json "''GET''" "''x''" None None None None] f p
  have 2: "fst (request ex_client (ex_env ex_granted (ex_answers ex_broken_json)) ''GET'' ''x''
            None None None None ex_cached) = Inr (Text ''oops'')"
    by simp
  from T [of ex_image "''GET''" "''x''" None None None None] f p
  have 3: "fst (request ex_client (ex_env ex_granted (ex_answers ex_image)) ''GET'' ''x''
            None None None None ex_cached) = Inr (Bytes ''PNG'')"
    by simp
  show ?thesis
    using 1 2 3 f p ex_guard_cached_any by simp
qed

section \<open>The convenience surface\<close>

subsection \<open>The pagination loop\<close>

lemma has_more_cases:
  "has_more r \<Longrightarrow> \<exists>d. r = Inr (Json (JObj d)) \<and> truthy (dict_get d ''hasMore'')"
  by (cases r rule: has_more.cases) auto

lemma loop_step:
  "get_all_loop c e path p hs tmo output page s =
     (let r = page_get c e path p hs tmo page s
      in case page_data (fst r) of
           None \<Rightarrow> Some (Inl TypeError, snd r)
         | Some data \<Rightarrow>
             if has_more (fst r)
             then get_all_loop c e path p hs tmo (output @ data) (page + 1) (snd r)
             else Some (Inr (output @ data), snd r))"
proof (cases "page_get c e path p hs tmo page s")
  case (Pair r s1)
  then have g: "get c e path (Some p) hs tmo (set_item p ''page'' (JInt page) s) = (r, s1)"
    by (simp add: page_get_def)
  show ?thesis
    apply (subst get_all_loop.simps)
    apply (simp add: Pair g)
    apply (cases r rule: has_more.cases)
    apply (auto split: option.splits)
    done
qed

lemma loop_run:
  assumes "\<forall>k. j \<le> k \<and> k < n \<longrightarrow>
             has_more (page_result c e path p hs tmo k s)
             \<and> page_data (page_result c e path p hs tmo k s) \<noteq> None"
    and "\<not> has_more (page_result c e path p hs tmo n s)"
    and "page_data (page_result c e path p hs tmo n s) \<noteq> None"
    and "j \<le> n"
  shows "get_all_loop c e path p hs tmo acc (int (Suc j)) (after_pages c e path p hs tmo j s) =
     Some (Inr (acc @ concat (map (\<lambda>k. the (page_data (page_result c e path p hs tmo k s)))
                               [j ..< Suc n])),
           after_pages c e path p hs tmo (Suc n) s)"
  using assms
proof (induction "n - j" arbitrary: j acc)
  case 0
  then have "j = n" by simp
  with 0 show ?case
    by (subst loop_step) (auto simp: page_result_def Let_def)
next
  case (Suc d)
  then have lt: "j < n" by simp
  with Suc.prems have hm: "has_more (page_result c e path p hs tmo j s)"
    and pd: "page_data (page_result c e path p hs tmo j s) \<noteq> None"
    by auto
  from pd obtain data where data: "page_data (page_result c e path p hs tmo j s) = Some data"
    by auto
  have ih: "get_all_loop c e path p hs tmo (acc @ data) (int (Suc (Suc j)))
               (after_pages c e path p hs tmo (Suc j) s) =
     Some (Inr ((acc @ data) @ concat (map (\<lambda>k. the (page_data (page_result c e path p hs tmo k s)))
                               [Suc j ..< Suc n])),
           after_pages c e path p hs tmo (Suc n) s)"
    using Suc.hyps(2) Suc.prems lt by (intro Suc.hyps(1)) auto
  have up: "[j ..< Suc n] = j # [Suc j ..< Suc n]"
    using lt by (simp add: upt_conv_Cons)
  show ?case
    apply (subst loop_step)
    using hm data ih
    apply (simp add: page_result_def Let_def up del: upt_Suc)
    done
qed


subsection \<open>What a dispatch changes\<close>

lemma upper_GET: "upper ''GET'' = ''GET''"
  by code_simp

lemma refresh_frame:
  "heap (snd (refresh_access_token c e s)) = heap s"
  "sent (snd (refresh_access_token c e s)) = sent s"
  "next_addr (snd (refresh_access_token c e s)) = next_addr s"
  by (simp_all add: refresh_access_token_def time_time_def Let_def
           split: outcome.splits option.splits json.splits prod.splits)

lemma guard_frame:
  "heap (snd (get_access_token c e s)) = heap s"
  "sent (snd (get_access_token c e s)) = sent s"
  "next_addr (snd (get_access_token c e s)) = next_addr s"
  using refresh_frame [of c e "s\<lparr>ticks := Suc (ticks s)\<rparr>"]
  by (auto simp: get_access_token_def time_time_def split: prod.splits sum.splits)

lemma dispatch_frame:
  "heap (snd (dispatch c e m path ps body hs tmo s)) = heap s"
  "next_addr (snd (dispatch c e m path ps body hs tmo s)) = next_addr s"
  using guard_frame [of c e s]
  by (auto simp: dispatch_def Let_def split: prod.splits sum.splits outcome.splits)

lemma get_frame:
  "heap (snd (get c e path ps hs tmo s)) = heap s"
  "next_addr (snd (get c e path ps hs tmo s)) = next_addr s"
  by (simp_all add: get_def request_state dispatch_frame)

lemma deref_set_item [simp]: "deref (set_item p k v s) p = AList.update k v (deref s p)"
  by (simp add: deref_def set_item_def)

lemma set_item_frame [simp]:
  "sent (set_item p k v s) = sent s"
  "posts (set_item p k v s) = posts s"
  "next_addr (set_item p k v s) = next_addr s"
  "access_token (set_item p k v s) = access_token s"
  "token_expiry (set_item p k v s) = token_expiry s"
  "ticks (set_item p k v s) = ticks s"
  "heap (set_item p k v s) = (heap s)(p \<mapsto> AList.update k v (deref s p))"
  by (simp_all add: set_item_def)

lemma deref_cong: "heap s = heap s' \<Longrightarrow> deref s a = deref s' a"
  by (simp add: deref_def)

lemma get_sent:
  "sent (snd (get c e path (Some p) hs tmo s)) = sent s
   \<or> (\<exists>req. sent (snd (get c e path (Some p) hs tmo s)) = sent s @ [req]
        \<and> rq_method req = ''GET'' \<and> rq_url req = prepare_url c path
        \<and> rq_params req = Some (deref s p))"
proof (cases "get_access_token c e s")
  case (Pair r s1)
  from guard_frame [of c e s] Pair have fr: "heap s1 = heap s" "sent s1 = sent s"
    by simp_all
  show ?thesis
  proof (cases r)
    case (Inl err)
    with Pair fr show ?thesis
      by (simp add: get_def request_state dispatch_unsent)
  next
    case (Inr tok)
    with Pair fr show ?thesis
      by (simp add: get_def request_state dispatch_sent make_request_def upper_GET
            deref_cong [OF fr(1)])
  qed
qed

lemma get_sent_ok:
  assumes "fst (get c e path (Some p) hs tmo s) = Inr x"
  shows "\<exists>req. sent (snd (get c e path (Some p) hs tmo s)) = sent s @ [req]
        \<and> rq_method req = ''GET'' \<and> rq_url req = prepare_url c path
        \<and> rq_params req = Some (deref s p)"
proof (cases "get_access_token c e s")
  case (Pair r s1)
  from guard_frame [of c e s] Pair have fr: "heap s1 = heap s" "sent s1 = sent s"
    by simp_all
  show ?thesis
  proof (cases r)
    case (Inl err)
    with Pair assms show ?thesis
      by (simp add: get_def request_def dispatch_unsent)
  next
    case (Inr tok)
    with Pair fr show ?thesis
      by (simp add: get_def request_state dispatch_sent make_request_def upper_GET
            deref_cong [OF fr(1)])
  qed
qed

lemma page_get_sent:
  "sent (snd (page_get c e path p hs tmo page s)) = sent s
   \<or> (\<exists>req. sent (snd (page_get c e path p hs tmo page s)) = sent s @ [req]
        \<and> is_page_request c path page req)"
  using get_sent [of c e path p hs tmo "set_item p ''page'' (JInt page) s"]
  by (auto simp: page_get_def is_page_request_def update_conv')

lemma page_get_sent_ok:
  "fst (page_get c e path p hs tmo page s) = Inr x \<Longrightarrow>
   \<exists>req. sent (snd (page_get c e path p hs tmo page s)) = sent s @ [req]
        \<and> is_page_request c path page req"
  using get_sent_ok [of c e path p hs tmo "set_item p ''page'' (JInt page) s" x]
  by (auto simp: page_get_def is_page_request_def update_conv')

lemma page_get_heap:
  "heap (snd (page_get c e path p hs tmo page s))
     = (heap s)(p \<mapsto> AList.update ''page'' (JInt page) (deref s p))"
  by (simp add: page_get_def get_frame)

lemma sent_after_pages:
  assumes "\<forall>k<m. has_more (page_result c e path p hs tmo k s)"
  shows "\<exists>reqs. sent (after_pages c e path p hs tmo m s) = sent s @ reqs \<and> length reqs = m
           \<and> (\<forall>i<m. is_page_request c path (int i + 1) (reqs ! i))"
  using assms
proof (induction m)
  case 0
  then show ?case by simp
next
  case (Suc m)
  then obtain reqs where r: "sent (after_pages c e path p hs tmo m s) = sent s @ reqs"
      "length reqs = m" "\<forall>i<m. is_page_request c path (int i + 1) (reqs ! i)"
    by auto
  from Suc.prems have "has_more (page_result c e path p hs tmo m s)" by simp
  then obtain d where "page_result c e path p hs tmo m s = Inr (Json (JObj d))"
    using has_more_cases by blast
  then obtain req where q: "sent (after_pages c e path p hs tmo (Suc m) s)
        = sent (after_pages c e path p hs tmo m s) @ [req]"
      "is_page_request c path (int (Suc m)) req"
    using page_get_sent_ok [of c e path p hs tmo "int (Suc m)" "after_pages c e path p hs tmo m s"]
    by (auto simp: page_result_def)
  have "\<forall>i<Suc m. is_page_request c path (int i + 1) ((reqs @ [req]) ! i)"
    using r q by (auto simp: nth_append less_Suc_eq add.commute)
  with r q show ?case
    by (intro exI [of _ "reqs @ [req]"]) simp
qed

lemma page_get_heap_again:
  assumes "heap s1 = (heap s)(p \<mapsto> AList.update ''page'' v (deref s p))"
  shows "heap (snd (page_get c e path p hs tmo page s1))
     = (heap s)(p \<mapsto> AList.update ''page'' (JInt page) (deref s p))"
proof -
  have "deref s1 p = AList.update ''page'' v (deref s p)"
    by (simp add: deref_def assms)
  then show ?thesis
    by (simp add: page_get_heap assms)
qed

lemma heap_after_pages:
  "heap (after_pages c e path p hs tmo (Suc n) s)
     = (heap s)(p \<mapsto> AList.update ''page'' (JInt (int (Suc n))) (deref s p))"
proof (induction n)
  case 0
  show ?case by (simp add: page_get_heap)
next
  case (Suc n)
  show ?case
    using page_get_heap_again [OF Suc.IH] by simp
qed


lemma page_params_sent: "page_params params s = (p, s1) \<Longrightarrow> sent s1 = sent s"
  by (auto simp: page_params_def new_dict_def split: option.splits if_splits)

lemma page_data_array:
  "r = Inr (Json (JObj d)) \<Longrightarrow> dict_get d ''data'' = JArr xs \<Longrightarrow> page_data r = Some xs"
  by (simp add: or_empty_def)

lemma page_data_absent:
  "r = Inr (Json (JObj d)) \<Longrightarrow> \<not> truthy (dict_get d ''data'') \<Longrightarrow> page_data r = Some []"
  by (simp add: or_empty_def)

lemma has_more_iff:
  "has_more r \<longleftrightarrow> (\<exists>d. r = Inr (Json (JObj d)) \<and> truthy (dict_get d ''hasMore''))"
  by (cases r rule: has_more.cases) auto

lemma page_data_not_dict:
  "\<forall>d. r \<noteq> Inr (Json (JObj d)) \<Longrightarrow> page_data r = Some []"
  by (cases r rule: page_data.cases) auto

text \<open>
  Claim C7.  Let \<open>p\<close> be the dictionary \<^verbatim>\<open>get_all\<close> works on and \<open>s1\<close> the state once it is
  set up.  Suppose the rounds 1 to \<open>n\<close> each return a JSON object with a true \<^verbatim>\<open>hasMore\<close>,
  round \<open>n + 1\<close> does not (it raises, or returns something that is not a JSON object, or
  an object without a true \<^verbatim>\<open>hasMore\<close>), and every \<^verbatim>\<open>data\<close> met can be iterated (a list
  contributes its elements, an absent or false \<^verbatim>\<open>data\<close> nothing; a number or \<^verbatim>\<open>true\<close> would
  raise \<^verbatim>\<open>TypeError\<close>).  Then \<^verbatim>\<open>get_all\<close> returns, without an error, the concatenation in
  order of what the rounds 1 to \<open>n + 1\<close> contribute; when round \<open>n + 1\<close> raised or returned
  no JSON object, that is what the rounds 1 to \<open>n\<close> contributed.  The requests handed to
  the transport meanwhile are \<^verbatim>\<open>GET\<close>s of the resolved path with \<^verbatim>\<open>page\<close> 1, 2, 3, ... in
  order: \<open>n + 1\<close> of them, or \<open>n\<close> when the last round failed before the transport was called.
\<close>

theorem get_all_accumulates:
  assumes "page_params params s = (p, s1)"
    and "\<forall>k<n. has_more (page_result c e path p hs tmo k s1)
               \<and> page_data (page_result c e path p hs tmo k s1) \<noteq> None"
    and "\<not> has_more (page_result c e path p hs tmo n s1)"
    and "page_data (page_result c e path p hs tmo n s1) \<noteq> None"
  shows "get_all c e path params hs tmo s =
           Some (Inr (concat (map (\<lambda>k. the (page_data (page_result c e path p hs tmo k s1)))
                                [0 ..< Suc n])),
                 after_pages c e path p hs tmo (Suc n) s1)
       \<and> ((\<forall>d. page_result c e path p hs tmo n s1 \<noteq> Inr (Json (JObj d))) \<longrightarrow>
            get_all c e path params hs tmo s =
              Some (Inr (concat (map (\<lambda>k. the (page_data (page_result c e path p hs tmo k s1)))
                                   [0 ..< n])),
                    after_pages c e path p hs tmo (Suc n) s1))
       \<and> (\<exists>reqs. sent (after_pages c e path p hs tmo (Suc n) s1) = sent s @ reqs
              \<and> n \<le> length reqs \<and> length reqs \<le> Suc n
              \<and> (\<forall>i<length reqs. is_page_request c path (int i + 1) (reqs ! i)))
       \<and> (\<forall>k d xs. page_result c e path p hs tmo k s1 = Inr (Json (JObj d))
              \<and> dict_get d ''data'' = JArr xs \<longrightarrow>
            page_data (page_result c e path p hs tmo k s1) = Some xs)
       \<and> (\<forall>k d. page_result c e path p hs tmo k s1 = Inr (Json (JObj d))
              \<and> \<not> truthy (dict_get d ''data'') \<longrightarrow>
            page_data (page_result c e path p hs tmo k s1) = Some [])
       \<and> (\<forall>k. has_more (page_result c e path p hs tmo k s1) \<longleftrightarrow>
              (\<exists>d. page_result c e path p hs tmo k s1 = Inr (Json (JObj d))
                   \<and> truthy (dict_get d ''hasMore'')))"
proof -
  have run: "get_all c e path params hs tmo s =
           Some (Inr (concat (map (\<lambda>k. the (page_data (page_result c e path p hs tmo k s1)))
                                [0 ..< Suc n])),
                 after_pages c e path p hs tmo (Suc n) s1)"
    using loop_run [of 0 n c e path p hs tmo s1 "[]"] assms
    by (simp add: get_all_def)
  have last: "get_all c e path params hs tmo s =
              Some (Inr (concat (map (\<lambda>k. the (page_data (page_result c e path p hs tmo k s1)))
                                   [0 ..< n])),
                    after_pages c e path p hs tmo (Suc n) s1)"
    if "\<forall>d. page_result c e path p hs tmo n s1 \<noteq> Inr (Json (JObj d))"
    using run page_data_not_dict [OF that] by simp
  have "\<exists>reqs. sent (after_pages c e path p hs tmo (Suc n) s1) = sent s @ reqs
              \<and> n \<le> length reqs \<and> length reqs \<le> Suc n
              \<and> (\<forall>i<length reqs. is_page_request c path (int i + 1) (reqs ! i))"
  proof -
    from assms(2) have "\<forall>k<n. has_more (page_result c e path p hs tmo k s1)" by simp
    from sent_after_pages [OF this]
    obtain reqs where r: "sent (after_pages c e path p hs tmo n s1) = sent s1 @ reqs"
        "length reqs = n" "\<forall>i<n. is_page_request c path (int i + 1) (reqs ! i)"
      by auto
    from page_get_sent [of c e path p hs tmo "int (Suc n)" "after_pages c e path p hs tmo n s1"]
    show ?thesis
    proof
      assume "sent (snd (page_get c e path p hs tmo (int (Suc n))
                           (after_pages c e path p hs tmo n s1)))
                = sent (after_pages c e path p hs tmo n s1)"
      with r page_params_sent [OF assms(1)] show ?thesis
        by (intro exI [of _ reqs]) simp
    next
      assume "\<exists>req. sent (snd (page_get c e path p hs tmo (int (Suc n))
                           (after_pages c e path p hs tmo n s1)))
                = sent (after_pages c e path p hs tmo n s1) @ [req]
              \<and> is_page_request c path (int (Suc n)) req"
      then obtain req where q: "sent (after_pages c e path p hs tmo (Suc n) s1)
                = sent (after_pages c e path p hs tmo n s1) @ [req]"
          "is_page_request c path (int (Suc n)) req"
        by auto
      have "\<forall>i<Suc n. is_page_request c path (int i + 1) ((reqs @ [req]) ! i)"
        using r q by (auto simp: nth_append less_Suc_eq add.commute)
      with r q page_params_sent [OF assms(1)] show ?thesis
        by (intro exI [of _ "reqs @ [req]"]) simp
    qed
  qed
  then show ?thesis
    using run last page_data_array page_data_absent has_more_iff by blast
qed

lemma ex_three_params:
  "page_params None ex_cached
     = (0, ex_cached\<lparr>heap := [0 \<mapsto> [(''page'', JInt 1)]], next_addr := 1\<rparr>)"
  by (simp add: page_params_def new_dict_def ex_cached_def ex_fresh_def)

lemma ex_three_run:
  "has_more (page_result ex_client (ex_env ex_granted ex_three_pages) ''x'' 0 None None 0
     (ex_cached\<lparr>heap := [0 \<mapsto> [(''page'', JInt 1)]], next_addr := 1\<rparr>))"
  "has_more (page_result ex_client (ex_env ex_granted ex_three_pages) ''x'' 0 None None 1
     (ex_cached\<lparr>heap := [0 \<mapsto> [(''page'', JInt 1)]], next_addr := 1\<rparr>))"
  "\<not> has_more (page_result ex_client (ex_env ex_granted ex_three_pages) ''x'' 0 None None 2
     (ex_cached\<lparr>heap := [0 \<mapsto> [(''page'', JInt 1)]], next_addr := 1\<rparr>))"
  "page_data (page_result ex_client (ex_env ex_granted ex_three_pages) ''x'' 0 None None 0
     (ex_cached\<lparr>heap := [0 \<mapsto> [(''page'', JInt 1)]], next_addr := 1\<rparr>)) = Some [JInt 1, JInt 2]"
  "page_data (page_result ex_client (ex_env ex_granted ex_three_pages) ''x'' 0 None None 1
     (ex_cached\<lparr>heap := [0 \<mapsto> [(''page'', JInt 1)]], next_addr := 1\<rparr>)) = Some [JInt 3]"
  "page_data (page_result ex_client (ex_env ex_granted ex_three_pages) ''x'' 0 None None 2
     (ex_cached\<lparr>heap := [0 \<mapsto> [(''page'', JInt 1)]], next_addr := 1\<rparr>)) = Some [JInt 4]"
  by code_simp+

theorem get_all_accumulates_witness:
  "page_params None ex_cached
     = (0, ex_cached\<lparr>heap := [0 \<mapsto> [(''page'', JInt 1)]], next_addr := 1\<rparr>)
   \<and> has_more (page_result ex_client (ex_env ex_granted ex_three_pages) ''x'' 0 None None 0
        (ex_cached\<lparr>heap := [0 \<mapsto> [(''page'', JInt 1)]], next_addr := 1\<rparr>))
   \<and> has_more (page_result ex_client (ex_env ex_granted ex_three_pages) ''x'' 0 None None 1
        (ex_cached\<lparr>heap := [0 \<mapsto> [(''page'', JInt 1)]], next_addr := 1\<rparr>))
   \<and> \<not> has_more (page_result ex_client (ex_env ex_granted ex_three_pages) ''x'' 0 None None 2
        (ex_cached\<lparr>heap := [0 \<mapsto> [(''page'', JInt 1)]], next_addr := 1\<rparr>))
   \<and> map_option fst (get_all ex_client (ex_env ex_granted ex_three_pages) ''x'' None None None
                        ex_cached)
      = Some (Inr [JInt 1, JInt 2, JInt 3, JInt 4])"
proof -
  let ?s1 = "ex_cached\<lparr>heap := [0 \<mapsto> [(''page'', JInt 1)]], next_addr := 1\<rparr>"
  let ?r = "page_result ex_client (ex_env ex_granted ex_three_pages) ''x'' 0 None None"
  have c: "\<forall>k<2. has_more (?r k ?s1) \<and> page_data (?r k ?s1) \<noteq> None"
    using ex_three_run by (simp add: less_Suc_eq numeral_2_eq_2)
  have l: "page_data (?r 2 ?s1) \<noteq> None"
    using ex_three_run by simp
  from get_all_accumulates [OF ex_three_params c ex_three_run(3) l]
  have "get_all ex_client (ex_env ex_granted ex_three_pages) ''x'' None None None ex_cached =
           Some (Inr (concat (map (\<lambda>k. the (page_data (?r k ?s1))) [0 ..< Suc 2])),
                 after_pages ex_client (ex_env ex_granted ex_three_pages) ''x'' 0 None None (Suc 2) ?s1)"
    by blast
  moreover have "[0 ..< Suc 2] = [0, 1, 2]"
    by (simp add: upt_rec numeral_2_eq_2)
  ultimately show ?thesis
    using ex_three_run ex_three_params by simp
qed

subsection \<open>The batched filter\<close>

text \<open>
  Claim C8.  With 50 identifiers and the filter name \<^verbatim>\<open>jobIds\<close> the one request sent has the
  parameter \<^verbatim>\<open>ids\<close> (its value the 50 identifiers joined by commas, 99 characters) and no
  parameter \<^verbatim>\<open>jobIds\<close>: the two loops of \<^verbatim>\<open>get_all_id_filter\<close> write the literal key
  \<^verbatim>\<open>'ids'\<close>.  With 49 identifiers the branch for short lists writes the caller's key.
\<close>

theorem id_filter_ignores_filter_name:
  "ex_filter_keys (get_all_id_filter ex_client (ex_env ex_granted (ex_answers (ex_page [JInt 1] False)))
     ''x'' (ex_ids 50) ''jobIds'' None None None ex_cached) = [[(''ids'', 99)]]
  \<and> ex_filter_keys (get_all_id_filter ex_client (ex_env ex_granted (ex_answers (ex_page [JInt 1] False)))
     ''x'' (ex_ids 49) ''jobIds'' None None None ex_cached) = [[(''jobIds'', 97)]]"
  by code_simp

text \<open>
  With the filter name \<^verbatim>\<open>ids\<close>, 120 identifiers make exactly three requests, each a \<^verbatim>\<open>GET\<close>
  whose parameter \<^verbatim>\<open>ids\<close> holds a chunk joined by commas: 50, 50 and 20 identifiers.  The
  value returned is the concatenation of the three \<^verbatim>\<open>data\<close> lists in the order of the
  requests.
\<close>

theorem id_filter_120:
  "map (\<lambda>req. (rq_method req, rq_params req))
     (sent (snd (get_all_id_filter ex_client (ex_env ex_granted ex_three_pages)
                   ''x'' (ex_ids 120) ''ids'' None None None ex_cached)))
   = [(''GET'', Some [(''ids'', JStr (join_comma (ex_ids 50)))]),
      (''GET'', Some [(''ids'', JStr (join_comma (ex_ids 50)))]),
      (''GET'', Some [(''ids'', JStr (join_comma (ex_ids 20)))])]
   \<and> fst (get_all_id_filter ex_client (ex_env ex_granted ex_three_pages)
            ''x'' (ex_ids 120) ''ids'' None None None ex_cached)
     = Inr (JArr [JInt 1, JInt 2, JInt 3, JInt 4])"
  by code_simp

subsection \<open>The batched filter with no identifier\<close>

lemma filter_params_sent: "filter_params params s = (p, s0) \<Longrightarrow> sent s0 = sent s"
  by (auto simp: filter_params_def new_dict_def split: option.splits if_splits)

lemma get_responded:
  assumes "get_access_token c e s = (Inr token, s1)"
    and "api_reply e (length (sent s1)) (make_request c e ''GET'' path ps None hs tmo token s1)
           = Responded r"
    and "status_code r < 400"
  shows "fst (get c e path ps hs tmo s) = Inr (represent r)"
  using request_responded(1) [OF assms(1,2)] assms(3) by (simp add: get_def)

text \<open>
  Claim C10.  For an empty list of identifiers \<^verbatim>\<open>get_all_id_filter\<close> is one call of \<^verbatim>\<open>get\<close>,
  made after the filter key of the parameters has been set to the empty string, followed
  by \<^verbatim>\<open>resp.get("data") or []\<close>.  When the guard yields a token, exactly one request is
  handed to the transport: a \<^verbatim>\<open>GET\<close> whose parameters hold the empty string under the filter
  key.  When the response to it has a status below 400 and is returned as a JSON object,
  the result is the object's \<^verbatim>\<open>data\<close>, or the empty list when \<^verbatim>\<open>data\<close> is absent (or false).
\<close>

theorem id_filter_empty_list:
  assumes "filter_params params s = (p, s0)"
    and "get_access_token c e (set_item p name (JStr []) s0) = (Inr token, s1)"
  shows "get_all_id_filter c e path [] name params hs tmo s =
           (case get c e path (Some p) hs tmo (set_item p name (JStr []) s0) of
              (Inl err, s2) \<Rightarrow> (Inl err, s2)
            | (Inr resp, s2) \<Rightarrow>
                (case resp_get resp ''data'' of
                   Inl err \<Rightarrow> (Inl err, s2)
                 | Inr v \<Rightarrow> (Inr (or_empty v), s2)))
       \<and> sent (snd (get_all_id_filter c e path [] name params hs tmo s))
           = sent s @ [make_request c e ''GET'' path (Some p) None hs tmo token s1]
       \<and> rq_method (make_request c e ''GET'' path (Some p) None hs tmo token s1) = ''GET''
       \<and> rq_params (make_request c e ''GET'' path (Some p) None hs tmo token s1)
           = Some (AList.update name (JStr []) (deref s0 p))
       \<and> map_of (AList.update name (JStr []) (deref s0 p)) name = Some (JStr [])
       \<and> (\<forall>r d. api_reply e (length (sent s))
                    (make_request c e ''GET'' path (Some p) None hs tmo token s1) = Responded r
                 \<and> status_code r < 400 \<and> represent r = Json (JObj d) \<longrightarrow>
            fst (get_all_id_filter c e path [] name params hs tmo s)
              = Inr (or_empty (dict_get d ''data'')))
       \<and> (\<forall>d. \<not> truthy (dict_get d ''data'') \<longrightarrow> or_empty (dict_get d ''data'') = JArr [])
       \<and> (\<forall>d. truthy (dict_get d ''data'') \<longrightarrow> or_empty (dict_get d ''data'') = dict_get d ''data'')"
proof -
  let ?s = "set_item p name (JStr []) s0"
  let ?req = "make_request c e ''GET'' path (Some p) None hs tmo token s1"
  have unfold: "get_all_id_filter c e path [] name params hs tmo s =
           (case get c e path (Some p) hs tmo ?s of
              (Inl err, s2) \<Rightarrow> (Inl err, s2)
            | (Inr resp, s2) \<Rightarrow>
                (case resp_get resp ''data'' of
                   Inl err \<Rightarrow> (Inl err, s2)
                 | Inr v \<Rightarrow> (Inr (or_empty v), s2)))"
    by (simp add: get_all_id_filter_def assms(1))
  have st: "snd (get_all_id_filter c e path [] name params hs tmo s)
              = snd (get c e path (Some p) hs tmo ?s)"
    unfolding unfold by (auto split: prod.splits sum.splits)
  from guard_frame [of c e ?s] assms(2)
  have fr: "heap s1 = heap ?s" "sent s1 = sent ?s"
    by simp_all
  have sn: "sent s1 = sent s"
    using fr filter_params_sent [OF assms(1)] by simp
  have snt: "sent (snd (get_all_id_filter c e path [] name params hs tmo s)) = sent s @ [?req]"
    by (simp add: st get_def request_state dispatch_sent [OF assms(2)] sn)
  have prm: "rq_params ?req = Some (AList.update name (JStr []) (deref s0 p))"
    using deref_cong [OF fr(1), of p] by (simp add: make_request_def)
  have res: "fst (get_all_id_filter c e path [] name params hs tmo s)
              = Inr (or_empty (dict_get d ''data''))"
    if "api_reply e (length (sent s)) ?req = Responded r \<and> status_code r < 400
         \<and> represent r = Json (JObj d)" for r d
  proof -
    from that sn have "fst (get c e path (Some p) hs tmo ?s) = Inr (Json (JObj d))"
      using get_responded [OF assms(2), of path "Some p" hs tmo r] by simp
    then show ?thesis
      unfolding unfold by (auto simp: resp_get_def split: prod.splits sum.splits)
  qed
  show ?thesis
    using unfold snt prm res
    by (auto simp: make_request_def upper_GET update_conv' or_empty_def)
qed

lemma ex_filter_setup:
  "filter_params None ex_cached = (0, ex_cached\<lparr>heap := [0 \<mapsto> []], next_addr := 1\<rparr>)"
  by (simp add: filter_params_def new_dict_def ex_cached_def ex_fresh_def)

lemma ex_filter_guard:
  "get_access_token ex_client (ex_env ex_granted api)
     (set_item 0 ''ids'' (JStr []) (ex_cached\<lparr>heap := [0 \<mapsto> []], next_addr := 1\<rparr>))
   = (Inr (JStr ''tok''),
      (set_item 0 ''ids'' (JStr []) (ex_cached\<lparr>heap := [0 \<mapsto> []], next_addr := 1\<rparr>))
        \<lparr>ticks := 1\<rparr>)"
  by (simp add: get_access_token_def time_time_def ex_env_def ex_cached_def ex_fresh_def
        set_item_def)

theorem id_filter_empty_list_witness:
  "filter_params None ex_cached = (0, ex_cached\<lparr>heap := [0 \<mapsto> []], next_addr := 1\<rparr>)
   \<and> status_code (ex_page [JInt 1] False) < 400
   \<and> represent (ex_page [JInt 1] False)
       = Json (JObj [(''data'', JArr [JInt 1]), (''hasMore'', JBool False)])
   \<and> map (\<lambda>r. (rq_method r, rq_params r))
        (sent (snd (get_all_id_filter ex_client
                      (ex_env ex_granted (ex_answers (ex_page [JInt 1] False)))
                      ''x'' [] ''ids'' None None None ex_cached)))
      = [(''GET'', Some [(''ids'', JStr [])])]
   \<and> fst (get_all_id_filter ex_client (ex_env ex_granted (ex_answers (ex_page [JInt 1] False)))
            ''x'' [] ''ids'' None None None ex_cached)
      = Inr (JArr [JInt 1])"
proof -
  let ?e = "ex_env ex_granted (ex_answers (ex_page [JInt 1] False))"
  note T = id_filter_empty_list [OF ex_filter_setup ex_filter_guard,
      of "ex_answers (ex_page [JInt 1] False)" "''x''" None None]
  have r: "status_code (ex_page [JInt 1] False) < 400"
    "represent (ex_page [JInt 1] False)
       = Json (JObj [(''data'', JArr [JInt 1]), (''hasMore'', JBool False)])"
    unfolding ex_page_def ex_json_response_def represent_def declared_type_def
    by code_simp+
  from T have 1: "sent (snd (get_all_id_filter ex_client ?e ''x'' [] ''ids'' None None None ex_cached))
       = sent ex_cached @ [make_request ex_client ?e ''GET'' ''x'' (Some 0) None None None (JStr ''tok'')
            ((set_item 0 ''ids'' (JStr []) (ex_cached\<lparr>heap := [0 \<mapsto> []], next_addr := 1\<rparr>))
        \<lparr>ticks := 1\<rparr>)]"
    and 2: "rq_method (make_request ex_client ?e ''GET'' ''x'' (Some 0) None None None (JStr ''tok'')
            ((set_item 0 ''ids'' (JStr []) (ex_cached\<lparr>heap := [0 \<mapsto> []], next_addr := 1\<rparr>))
        \<lparr>ticks := 1\<rparr>)) = ''GET''"
    and 3: "rq_params (make_request ex_client ?e ''GET'' ''x'' (Some 0) None None None (JStr ''tok'')
            ((set_item 0 ''ids'' (JStr []) (ex_cached\<lparr>heap := [0 \<mapsto> []], next_addr := 1\<rparr>))
        \<lparr>ticks := 1\<rparr>))
           = Some (AList.update ''ids'' (JStr []) (deref (ex_cached\<lparr>heap := [0 \<mapsto> []], next_addr := 1\<rparr>) 0))"
    and 4: "\<forall>r d. api_reply ?e (length (sent ex_cached))
                    (make_request ex_client ?e ''GET'' ''x'' (Some 0) None None None (JStr ''tok'')
            ((set_item 0 ''ids'' (JStr []) (ex_cached\<lparr>heap := [0 \<mapsto> []], next_addr := 1\<rparr>))
        \<lparr>ticks := 1\<rparr>)) = Responded r
                 \<and> status_code r < 400 \<and> represent r = Json (JObj d) \<longrightarrow>
            fst (get_all_id_filter ex_client ?e ''x'' [] ''ids'' None None None ex_cached)
              = Inr (or_empty (dict_get d ''data''))"
    by blast+
  from 4 [rule_format, of "ex_page [JInt 1] False" "[(''data'', JArr [JInt 1]), (''hasMore'', JBool False)]"] r
  have 5: "fst (get_all_id_filter ex_client ?e ''x'' [] ''ids'' None None None ex_cached)
              = Inr (JArr [JInt 1])"
    by (simp add: ex_api or_empty_def dict_get_def)
  show ?thesis
    using ex_filter_setup r 1 2 3 5 by (simp add: deref_def ex_cached_def ex_fresh_def)
qed

subsection \<open>The caller's dictionary\<close>

lemma id_filter_loop_heap:
  assumes "ixs \<noteq> []"
    and "id_filter_loop c e path p hs tmo ids ixs data s = (Inr res, s2)"
  shows "heap s2 = (heap s)(p \<mapsto> AList.update ''ids''
                       (JStr (join_comma (take 50 (drop (50 * last ixs) ids)))) (deref s p))"
  using assms
proof (induction ixs arbitrary: data s)
  case Nil
  then show ?case by simp
next
  case (Cons i rest)
  let ?s0 = "set_item p ''ids'' (JStr (join_comma (take 50 (drop (50 * i) ids)))) s"
  obtain r s1 where g: "get c e path (Some p) hs tmo ?s0 = (r, s1)"
    by (cases "get c e path (Some p) hs tmo ?s0")
  from get_frame(1) [of c e path "Some p" hs tmo ?s0] g
  have h1: "heap s1 = (heap s)(p \<mapsto> AList.update ''ids''
                       (JStr (join_comma (take 50 (drop (50 * i) ids)))) (deref s p))"
    by simp
  from Cons.prems(2) g obtain resp v xs where
    r: "r = Inr resp" "resp_get resp ''data'' = Inr v" "py_iter v = Some xs"
    and rec: "id_filter_loop c e path p hs tmo ids rest (data @ xs) s1 = (Inr res, s2)"
    by (auto simp: Let_def split: sum.splits option.splits)
  show ?case
  proof (cases "rest = []")
    case True
    with rec h1 show ?thesis by simp
  next
    case False
    from Cons.IH [OF False rec]
    have "heap s2 = (heap s1)(p \<mapsto> AList.update ''ids''
                       (JStr (join_comma (take 50 (drop (50 * last rest) ids)))) (deref s1 p))" .
    moreover have "deref s1 p = AList.update ''ids''
                       (JStr (join_comma (take 50 (drop (50 * i) ids)))) (deref s p)"
      by (simp add: deref_def h1)
    ultimately show ?thesis
      using False by (simp add: h1)
  qed
qed

lemma chunk_arith_exact:
  fixes n :: nat
  assumes "50 \<le> n" and "n mod 50 = 0"
  shows "(n + 49) div 50 - 1 = n div 50 - 1" and "n - 50 * (n div 50 - 1) = 50"
proof -
  from assms(2) have "50 dvd n"
    by (simp add: dvd_eq_mod_eq_0)
  then obtain m where m: "n = 50 * m"
    by (auto elim: dvdE)
  with assms(1) obtain k where k: "m = Suc k"
    by (cases m) auto
  show "(n + 49) div 50 - 1 = n div 50 - 1"
    by (simp add: m)
  show "n - 50 * (n div 50 - 1) = 50"
    by (simp add: m k)
qed

lemma chunk_arith_rest:
  fixes n :: nat
  assumes "n mod 50 \<noteq> 0"
  shows "(n + 49) div 50 - 1 = n div 50" and "n - 50 * (n div 50) < 50"
proof -
  define q where "q = n div 50"
  define r where "r = n mod 50"
  have n: "n = 50 * q + r" and r: "0 < r" "r < 50"
    using assms by (simp_all add: q_def r_def)
  have one: "(r + 49) div 50 = 1"
    using r by (intro div_nat_eqI) simp_all
  have "(n + 49) div 50 = ((r + 49) + q * 50) div 50"
    by (simp add: n)
  also have "\<dots> = q + (r + 49) div 50"
    by (rule div_mult_self1) simp
  finally have "(n + 49) div 50 = q + 1"
    by (simp only: one)
  then show "(n + 49) div 50 - 1 = n div 50"
    by (simp add: q_def)
  show "n - 50 * (n div 50) < 50"
    using r by (simp add: n)
qed


lemma last_upt: "0 < m \<Longrightarrow> last [0 ..< m] = m - 1"
  by (cases m) simp_all

lemma last_chunk_short: "length ids < 50 \<Longrightarrow> last_chunk ids = ids"
  by (simp add: last_chunk_def)

lemma last_chunk_exact:
  assumes "50 \<le> length ids" and "length ids mod 50 = 0"
  shows "take 50 (drop (50 * last [0 ..< length ids div 50]) ids) = last_chunk ids"
proof -
  from assms(1) have "50 * 1 \<le> length ids" by simp
  then have "1 \<le> length ids div 50"
    by (simp only: less_eq_div_iff_mult_less_eq [symmetric] mult.commute) 
  then have "last [0 ..< length ids div 50] = length ids div 50 - 1"
    by (intro last_upt) simp
  moreover have "length (drop (50 * (length ids div 50 - 1)) ids) = 50"
    using chunk_arith_exact(2) [OF assms] by simp
  ultimately show ?thesis
    unfolding last_chunk_def chunk_arith_exact(1) [OF assms] by simp
qed

lemma last_chunk_rest:
  assumes "length ids mod 50 \<noteq> 0"
  shows "take 50 (drop (50 * last [0 ..< length ids div 50 + 1]) ids) = last_chunk ids"
proof -
  have "last [0 ..< length ids div 50 + 1] = length ids div 50"
    by simp
  moreover have "length (drop (50 * (length ids div 50)) ids) < 50"
    using chunk_arith_rest(2) [OF assms] by simp
  ultimately show ?thesis
    unfolding last_chunk_def chunk_arith_rest(1) [OF assms] by simp
qed

text \<open>
  Claim C9, as amended.  Let the caller's dictionary be not empty.  When \<^verbatim>\<open>get_all\<close> runs
  \<open>n + 1\<close> rounds (the rounds 1 to \<open>n\<close> go on, round \<open>n + 1\<close> stops), it returns and the
  caller's dictionary is then what it was with \<^verbatim>\<open>page\<close> set to \<open>n + 1\<close>, the last page
  requested.  After \<^verbatim>\<open>get_all_id_filter\<close> with fewer than 50 identifiers, whether it returns
  or raises, the caller's dictionary is what it was with the filter key set to the
  identifiers joined by commas (the only chunk).  After \<^verbatim>\<open>get_all_id_filter\<close> has returned
  for 50 identifiers or more and the filter name \<^verbatim>\<open>ids\<close>, the caller's dictionary is what it
  was with the filter key set to the last chunk joined by commas.
\<close>

theorem params_written_in_place:
  assumes "deref s a \<noteq> []"
  shows "((\<forall>k<n. has_more (page_result c e path a hs tmo k (set_item a ''page'' (JInt 1) s))
               \<and> page_data (page_result c e path a hs tmo k (set_item a ''page'' (JInt 1) s))
                   \<noteq> None)
          \<and> \<not> has_more (page_result c e path a hs tmo n (set_item a ''page'' (JInt 1) s))
          \<and> page_data (page_result c e path a hs tmo n (set_item a ''page'' (JInt 1) s)) \<noteq> None
          \<longrightarrow>
          (\<exists>res s2. get_all c e path (Some a) hs tmo s = Some (res, s2)
             \<and> deref s2 a = AList.update ''page'' (JInt (int n + 1)) (deref s a)
             \<and> map_of (deref s2 a) ''page'' = Some (JInt (int n + 1))))
       \<and> (length ids < 50 \<longrightarrow>
            deref (snd (get_all_id_filter c e path ids name (Some a) hs tmo s)) a
              = AList.update name (JStr (join_comma ids)) (deref s a)
          \<and> map_of (deref (snd (get_all_id_filter c e path ids name (Some a) hs tmo s)) a) name
              = Some (JStr (join_comma ids))
          \<and> last_chunk ids = ids)
       \<and> (50 \<le> length ids \<and> name = ''ids''
            \<and> fst (get_all_id_filter c e path ids name (Some a) hs tmo s) = Inr res \<longrightarrow>
            deref (snd (get_all_id_filter c e path ids name (Some a) hs tmo s)) a
              = AList.update name (JStr (join_comma (last_chunk ids))) (deref s a)
          \<and> map_of (deref (snd (get_all_id_filter c e path ids name (Some a) hs tmo s)) a) name
              = Some (JStr (join_comma (last_chunk ids))))"
proof (intro conjI impI)
  let ?s1 = "set_item a ''page'' (JInt 1) s"
  assume h: "(\<forall>k<n. has_more (page_result c e path a hs tmo k ?s1)
               \<and> page_data (page_result c e path a hs tmo k ?s1) \<noteq> None)
          \<and> \<not> has_more (page_result c e path a hs tmo n ?s1)
          \<and> page_data (page_result c e path a hs tmo n ?s1) \<noteq> None"
  have pp: "page_params (Some a) s = (a, ?s1)"
    using assms by (simp add: page_params_def)
  have run: "get_all c e path (Some a) hs tmo s =
           Some (Inr (concat (map (\<lambda>k. the (page_data (page_result c e path a hs tmo k ?s1)))
                                [0 ..< Suc n])),
                 after_pages c e path a hs tmo (Suc n) ?s1)"
    using loop_run [of 0 n c e path a hs tmo ?s1 "[]"] h
    by (simp add: get_all_def pp)
  have "heap (after_pages c e path a hs tmo (Suc n) ?s1)
          = (heap ?s1)(a \<mapsto> AList.update ''page'' (JInt (int (Suc n))) (deref ?s1 a))"
    by (rule heap_after_pages)
  then have "deref (after_pages c e path a hs tmo (Suc n) ?s1) a
          = AList.update ''page'' (JInt (int n + 1)) (deref s a)"
    by (simp add: deref_def add.commute)
  with run show "\<exists>res s2. get_all c e path (Some a) hs tmo s = Some (res, s2)
             \<and> deref s2 a = AList.update ''page'' (JInt (int n + 1)) (deref s a)
             \<and> map_of (deref s2 a) ''page'' = Some (JInt (int n + 1))"
    by (simp add: update_conv')
next
  assume l: "length ids < 50"
  have fp: "filter_params (Some a) s = (a, s)"
    using assms by (simp add: filter_params_def)
  have "heap (snd (get_all_id_filter c e path ids name (Some a) hs tmo s))
          = heap (set_item a name (JStr (join_comma ids)) s)"
    using l get_frame(1) [of c e path "Some a" hs tmo "set_item a name (JStr (join_comma ids)) s"]
    by (auto simp: get_all_id_filter_def fp split: prod.splits sum.splits)
  then show d: "deref (snd (get_all_id_filter c e path ids name (Some a) hs tmo s)) a
              = AList.update name (JStr (join_comma ids)) (deref s a)"
    by (simp add: deref_def)
  show "map_of (deref (snd (get_all_id_filter c e path ids name (Some a) hs tmo s)) a) name
              = Some (JStr (join_comma ids))"
    by (simp add: d update_conv')
  show "last_chunk ids = ids"
    using l by (rule last_chunk_short)
next
  assume h: "50 \<le> length ids \<and> name = ''ids''
            \<and> fst (get_all_id_filter c e path ids name (Some a) hs tmo s) = Inr res"
  let ?ixs = "if length ids mod 50 = 0 then [0 ..< length ids div 50]
              else [0 ..< length ids div 50 + 1]"
  have fp: "filter_params (Some a) s = (a, s)"
    using assms by (simp add: filter_params_def)
  have ne: "?ixs \<noteq> []"
  proof -
    from h have "50 * 1 \<le> length ids" by simp
    then have "1 \<le> length ids div 50"
      by (simp only: less_eq_div_iff_mult_less_eq [symmetric] mult.commute)
    then show ?thesis by simp
  qed
  obtain r s2 where lp: "id_filter_loop c e path a hs tmo ids ?ixs [] s = (r, s2)"
    by (cases "id_filter_loop c e path a hs tmo ids ?ixs [] s")
  with h fp obtain data where r: "r = Inr data"
    and st: "snd (get_all_id_filter c e path ids name (Some a) hs tmo s) = s2"
    by (cases r) (auto simp: get_all_id_filter_def)
  from id_filter_loop_heap [OF ne lp [unfolded r]]
  have "heap s2 = (heap s)(a \<mapsto> AList.update ''ids''
                       (JStr (join_comma (take 50 (drop (50 * last ?ixs) ids)))) (deref s a))" .
  moreover have "take 50 (drop (50 * last ?ixs) ids) = last_chunk ids"
  proof (cases "length ids mod 50 = 0")
    case True
    from h have "50 \<le> length ids" by simp
    from last_chunk_exact [OF this True] show ?thesis
      by (simp only: True if_True refl)
  next
    case False
    from last_chunk_rest [OF False] show ?thesis
      by (simp only: False if_False)
  qed
  ultimately have "heap s2 = (heap s)(a \<mapsto> AList.update ''ids''
                       (JStr (join_comma (last_chunk ids))) (deref s a))"
    by (simp only:)
  then have "deref s2 a = AList.update ''ids'' (JStr (join_comma (last_chunk ids))) (deref s a)"
    by (simp add: deref_def)
  with h show d: "deref (snd (get_all_id_filter c e path ids name (Some a) hs tmo s)) a
              = AList.update name (JStr (join_comma (last_chunk ids))) (deref s a)"
    unfolding st by simp
  show "map_of (deref (snd (get_all_id_filter c e path ids name (Some a) hs tmo s)) a) name
              = Some (JStr (join_comma (last_chunk ids)))"
    by (simp add: d update_conv')
qed

text \<open>
  Claim C9 as stated fails for an empty dictionary: \<^verbatim>\<open>if params:\<close> in \<^verbatim>\<open>get_all\<close> and
  \<^verbatim>\<open>if not params:\<close> in \<^verbatim>\<open>get_all_id_filter\<close> take an empty dictionary as absent and work on
  a new one, so the caller's stays empty.
\<close>

theorem get_all_leaves_empty_dict:
  "deref (ex_with_params []) 0 = []
   \<and> map_option (\<lambda>r. (fst r, deref (snd r) 0))
       (get_all ex_client (ex_env ex_granted ex_three_pages) ''x'' (Some 0) None None
          (ex_with_params []))
     = Some (Inr [JInt 1, JInt 2, JInt 3, JInt 4], [])
   \<and> deref (snd (get_all_id_filter ex_client
                    (ex_env ex_granted (ex_answers (ex_page [JInt 1] False)))
                    ''x'' [''7'', ''8''] ''ids'' (Some 0) None None (ex_with_params []))) 0
     = []"
  by code_simp

lemma ex_params_run:
  "has_more (page_result ex_client (ex_env ex_granted ex_three_pages) ''x'' 0 None None 0
     (set_item 0 ''page'' (JInt 1) (ex_with_params [(''pageSize'', JInt 50)])))"
  "has_more (page_result ex_client (ex_env ex_granted ex_three_pages) ''x'' 0 None None 1
     (set_item 0 ''page'' (JInt 1) (ex_with_params [(''pageSize'', JInt 50)])))"
  "\<not> has_more (page_result ex_client (ex_env ex_granted ex_three_pages) ''x'' 0 None None 2
     (set_item 0 ''page'' (JInt 1) (ex_with_params [(''pageSize'', JInt 50)])))"
  "page_data (page_result ex_client (ex_env ex_granted ex_three_pages) ''x'' 0 None None 0
     (set_item 0 ''page'' (JInt 1) (ex_with_params [(''pageSize'', JInt 50)]))) = Some [JInt 1, JInt 2]"
  "page_data (page_result ex_client (ex_env ex_granted ex_three_pages) ''x'' 0 None None 1
     (set_item 0 ''page'' (JInt 1) (ex_with_params [(''pageSize'', JInt 50)]))) = Some [JInt 3]"
  "page_data (page_result ex_client (ex_env ex_granted ex_three_pages) ''x'' 0 None None 2
     (set_item 0 ''page'' (JInt 1) (ex_with_params [(''pageSize'', JInt 50)]))) = Some [JInt 4]"
  by code_simp+

theorem params_written_in_place_witness:
  "deref (ex_with_params [(''pageSize'', JInt 50)]) 0 \<noteq> []
   \<and> has_more (page_result ex_client (ex_env ex_granted ex_three_pages) ''x'' 0 None None 0
        (set_item 0 ''page'' (JInt 1) (ex_with_params [(''pageSize'', JInt 50)])))
   \<and> has_more (page_result ex_client (ex_env ex_granted ex_three_pages) ''x'' 0 None None 1
        (set_item 0 ''page'' (JInt 1) (ex_with_params [(''pageSize'', JInt 50)])))
   \<and> \<not> has_more (page_result ex_client (ex_env ex_granted ex_three_pages) ''x'' 0 None None 2
        (set_item 0 ''page'' (JInt 1) (ex_with_params [(''pageSize'', JInt 50)])))
   \<and> (\<exists>res s2. get_all ex_client (ex_env ex_granted ex_three_pages) ''x'' (Some 0) None None
                   (ex_with_params [(''pageSize'', JInt 50)]) = Some (res, s2)
         \<and> deref s2 0 = [(''pageSize'', JInt 50), (''page'', JInt 3)])
   \<and> length [''7'', ''8''] < (50 :: nat)
   \<and> deref (snd (get_all_id_filter ex_client (ex_env ex_granted ex_down) ''x'' [''7'', ''8'']
                    ''jobIds'' (Some 0) None None (ex_with_params [(''pageSize'', JInt 50)]))) 0
      = [(''pageSize'', JInt 50), (''jobIds'', JStr ''7,8'')]
   \<and> 50 \<le> length (ex_ids 60)
   \<and> fst (get_all_id_filter ex_client (ex_env ex_granted (ex_answers (ex_page [JInt 1] False)))
            ''x'' (ex_ids 60) ''ids'' (Some 0) None None
            (ex_with_params [(''pageSize'', JInt 50)]))
      = Inr (JArr [JInt 1, JInt 1])
   \<and> last_chunk (ex_ids 60) = ex_ids 10
   \<and> deref (snd (get_all_id_filter ex_client
                    (ex_env ex_granted (ex_answers (ex_page [JInt 1] False)))
                    ''x'' (ex_ids 60) ''ids'' (Some 0) None None
                    (ex_with_params [(''pageSize'', JInt 50)]))) 0
      = [(''pageSize'', JInt 50), (''ids'', JStr (join_comma (ex_ids 10)))]"
proof -
  let ?s = "ex_with_params [(''pageSize'', JInt 50)]"
  have ne: "deref ?s 0 \<noteq> []" and d: "deref ?s 0 = [(''pageSize'', JInt 50)]"
    by (simp_all add: ex_with_params_def deref_def)
  note T = params_written_in_place [OF ne]
  have c: "(\<forall>k<2. has_more (page_result ex_client (ex_env ex_granted ex_three_pages) ''x'' 0 None None k
                        (set_item 0 ''page'' (JInt 1) ?s))
               \<and> page_data (page_result ex_client (ex_env ex_granted ex_three_pages) ''x'' 0 None None k
                        (set_item 0 ''page'' (JInt 1) ?s)) \<noteq> None)
          \<and> \<not> has_more (page_result ex_client (ex_env ex_granted ex_three_pages) ''x'' 0 None None 2
                        (set_item 0 ''page'' (JInt 1) ?s))
          \<and> page_data (page_result ex_client (ex_env ex_granted ex_three_pages) ''x'' 0 None None 2
                        (set_item 0 ''page'' (JInt 1) ?s)) \<noteq> None"
    using ex_params_run by (simp add: less_Suc_eq numeral_2_eq_2)
  from T [where n = 2 and c = ex_client and e = "ex_env ex_granted ex_three_pages"
            and path = "''x''" and hs = None and tmo = None] c
  have 1: "\<exists>res s2. get_all ex_client (ex_env ex_granted ex_three_pages) ''x'' (Some 0) None None ?s
                   = Some (res, s2)
         \<and> deref s2 0 = AList.update ''page'' (JInt (int 2 + 1)) (deref ?s 0)"
    by blast
  have l: "length [''7'', ''8''] < (50 :: nat)" by simp
  from T [where ids = "[''7'', ''8'']" and c = ex_client and e = "ex_env ex_granted ex_down"
            and path = "''x''" and name = "''jobIds''" and hs = None and tmo = None] l
  have 2: "deref (snd (get_all_id_filter ex_client (ex_env ex_granted ex_down) ''x'' [''7'', ''8'']
                    ''jobIds'' (Some 0) None None ?s)) 0
      = AList.update ''jobIds'' (JStr (join_comma [''7'', ''8''])) (deref ?s 0)"
    by blast
  have m: "50 \<le> length (ex_ids 60)"
    by (simp add: ex_ids_def)
  have f: "fst (get_all_id_filter ex_client (ex_env ex_granted (ex_answers (ex_page [JInt 1] False)))
            ''x'' (ex_ids 60) ''ids'' (Some 0) None None ?s)
      = Inr (JArr [JInt 1, JInt 1])"
    by code_simp
  have lc: "last_chunk (ex_ids 60) = ex_ids 10"
    by code_simp
  from T [where ids = "ex_ids 60" and c = ex_client
            and e = "ex_env ex_granted (ex_answers (ex_page [JInt 1] False))"
            and path = "''x''" and name = "''ids''" and hs = None and tmo = None
            and res = "JArr [JInt 1, JInt 1]"] m f
  have 3: "deref (snd (get_all_id_filter ex_client
                    (ex_env ex_granted (ex_answers (ex_page [JInt 1] False)))
                    ''x'' (ex_ids 60) ''ids'' (Some 0) None None ?s)) 0
      = AList.update ''ids'' (JStr (join_comma (last_chunk (ex_ids 60)))) (deref ?s 0)"
    by blast
  show ?thesis
    using ne ex_params_run 1 2 l m f lc 3 by (simp add: d)
qed

end
